theory Spec2Isabelle
  imports Main
begin

section \<open>Data model\<close>

text \<open>
  The model follows \<^verbatim>\<open>src/server.js\<close>: the Mongoose schemas become records, the
  collections become fields of a \<open>state\<close> record, and every route handler becomes a
  function from a state to a response and the next state.

  Modelling conventions:
  \<^item> JavaScript numbers that hold prices, quantities and revenue counters are integers
    (\<open>int\<close>); fractional amounts and \<^verbatim>\<open>NaN\<close> inputs are outside the model.
  \<^item> A timestamp is kept as its calendar day only (\<open>cal_date\<close>), which is all that
    \<^verbatim>\<open>updateRevenue\<close> reads from it; the current time is the parameter \<open>now\<close>.
  \<^item> The order identifier \<^verbatim>\<open>ORD\<close> followed by the zero-padded number \<open>n\<close> is
    represented by \<open>n\<close>; the encoding is injective, so the unique index on
    \<^verbatim>\<open>orderId\<close> is the uniqueness of \<open>n\<close>.
  \<^item> Requests are those of an authenticated caller: the JWT, CSRF and role
    middleware are outside the model, and an item id is the numeric product id.
  \<^item> Notification and e-mail dispatch is outside the model.
\<close>

record cal_date =
  year :: nat
  month :: nat
  day :: nat

datatype item_status = In_cart | Checkedout

datatype order_status = Pending | Processing | Shipped | Delivered | Cancelled

datatype payment_status = Pay_pending | Paid | Failed

text \<open>\<^verbatim>\<open>productSchema\<close>; \<open>newprice\<close> is the schema-less legacy field (\<^verbatim>\<open>strict: false\<close>),
  absent unless written.\<close>

record product =
  prod_id :: int
  prod_name :: string
  prod_image :: string
  new_price :: int
  newprice :: "int option"
  sizes :: "string list"

text \<open>\<^verbatim>\<open>user.cartData\<close>: an object from product key to an object from size label to
  quantity, kept as association lists in the order \<^verbatim>\<open>Object.entries\<close> enumerates them.\<close>

type_synonym size_map = "(string \<times> int) list"
type_synonym cart = "(int \<times> size_map) list"

text \<open>\<^verbatim>\<open>userSchema\<close>; an absent optional string is the empty string (both are falsy).\<close>

record user =
  fullName :: string
  email :: string
  phone :: string
  address :: string
  governorate :: string
  cartData :: cart

record customer_info =
  ci_fullName :: string
  ci_email :: string
  ci_phone :: string
  ci_address :: string
  ci_governorate :: string

text \<open>An element of \<^verbatim>\<open>orderSchema.items\<close>.\<close>

record order_item =
  productId :: int
  productName :: string
  productImage :: string
  quantity :: int
  price :: int
  item_size :: string
  itemTotal :: int
  istatus :: item_status

text \<open>\<^verbatim>\<open>orderSchema\<close>; \<open>oid\<close> is the document's \<^verbatim>\<open>_id\<close>, \<open>createdAt\<close> is set by the
  first save (\<^verbatim>\<open>timestamps: true\<close>).\<close>

record order =
  oid :: nat
  orderId :: nat
  userId :: nat
  customerInfo :: customer_info
  items :: "order_item list"
  total :: int
  status :: order_status
  paymentMethod :: string
  paymentStatus :: payment_status
  transactionId :: "string option"
  order_notes :: "string option"
  trackingNumber :: "string option"
  deliveredAt :: "cal_date option"
  cancelledAt :: "cal_date option"
  cancellationReason :: "string option"
  createdAt :: "cal_date option"

text \<open>\<^verbatim>\<open>revenueSchema\<close>; its \<^verbatim>\<open>day\<close>, \<^verbatim>\<open>month\<close> and \<^verbatim>\<open>year\<close> fields are those of
  \<open>date\<close>.\<close>

record revenue =
  date :: cal_date
  dailyRevenue :: int
  ordersCount :: int
  deliveredRevenue :: int
  pendingRevenue :: int
  cancelledRevenue :: int
  checkedoutRevenue :: int

record state =
  products :: "product list"
  users :: "nat \<rightharpoonup> user"
  orders :: "order list"
  revenues :: "revenue list"
  next_oid :: nat

text \<open>One constructor for each error response of the handlers.\<close>

datatype error =
    Invalid_quantity
  | Size_required
  | Product_not_found
  | Invalid_size
  | User_not_found
  | Missing_fields
  | Negative_quantity
  | Invalid_payment_method
  | Empty_cart
  | Invalid_status
  | Order_not_found
  | No_pending_order
  | Internal_server_error

fun http_status :: "error \<Rightarrow> nat" where
  "http_status Product_not_found = 404"
| "http_status User_not_found = 404"
| "http_status Order_not_found = 404"
| "http_status Internal_server_error = 500"
| "http_status _ = 400"

section \<open>Revenue ledger\<close>

definition zero_revenue :: "cal_date \<Rightarrow> revenue" where
  "zero_revenue d =
     \<lparr>date = d, dailyRevenue = 0, ordersCount = 0, deliveredRevenue = 0,
      pendingRevenue = 0, cancelledRevenue = 0, checkedoutRevenue = 0\<rparr>"

text \<open>\<^verbatim>\<open>revenue.save()\<close>: the document found by \<^verbatim>\<open>findOne\<close> is written back in place, a
  new one is appended to the collection.\<close>

fun save_revenue :: "revenue \<Rightarrow> revenue list \<Rightarrow> revenue list" where
  "save_revenue r [] = [r]"
| "save_revenue r (x # xs) = (if date x = date r then r # xs else x # save_revenue r xs)"

text \<open>\<^verbatim>\<open>items.filter(item => item.status === 'checkedout').reduce((sum, item) => sum + item.itemTotal, 0)\<close>\<close>

definition checkedout_total :: "order_item list \<Rightarrow> int" where
  "checkedout_total its =
     foldl (\<lambda>sum item. sum + itemTotal item) 0 (filter (\<lambda>item. istatus item = Checkedout) its)"

text \<open>The bucket \<^verbatim>\<open>updateRevenue\<close> works on: the stored one for the day, or a zeroed one.\<close>

definition bucket :: "revenue list \<Rightarrow> cal_date \<Rightarrow> revenue" where
  "bucket revs d = (case find (\<lambda>r. date r = d) revs of Some r \<Rightarrow> r | None \<Rightarrow> zero_revenue d)"

text \<open>\<^verbatim>\<open>updateRevenue(orderData, action)\<close>, lines 721-780. \<^verbatim>\<open>orderData.total || 0\<close> is
  \<open>total orderData\<close>, since the only falsy total is \<open>0\<close>. Nothing in the body can throw
  on a stored order, so the \<^verbatim>\<open>catch\<close> branch has no counterpart.\<close>

definition updateRevenue :: "cal_date \<Rightarrow> order \<Rightarrow> string \<Rightarrow> revenue list \<Rightarrow> revenue list" where
  "updateRevenue now orderData action revs =
     (let dateKey = (case createdAt orderData of Some d \<Rightarrow> d | None \<Rightarrow> now);
          revenue = bucket revs dateKey;
          orderTotal = total orderData;
          checkedoutTotal = checkedout_total (items orderData);
          revenue' =
            (if action = ''add'' then
               (let r1 = revenue\<lparr>ordersCount := ordersCount revenue + 1\<rparr>;
                    r2 = (if status orderData = Delivered then
                            r1\<lparr>deliveredRevenue := deliveredRevenue r1 + orderTotal,
                               dailyRevenue := dailyRevenue r1 + orderTotal\<rparr>
                          else if status orderData = Cancelled then
                            r1\<lparr>cancelledRevenue := cancelledRevenue r1 + orderTotal\<rparr>
                          else r1\<lparr>pendingRevenue := pendingRevenue r1 + orderTotal\<rparr>)
                in r2\<lparr>checkedoutRevenue := checkedoutRevenue r2 + checkedoutTotal\<rparr>)
             else if action = ''update'' then
               (let r2 = (if status orderData = Delivered then
                            revenue\<lparr>deliveredRevenue := deliveredRevenue revenue + orderTotal,
                                    dailyRevenue := dailyRevenue revenue + orderTotal\<rparr>
                          else if status orderData = Cancelled then
                            revenue\<lparr>cancelledRevenue := cancelledRevenue revenue + orderTotal\<rparr>
                          else revenue\<lparr>pendingRevenue := pendingRevenue revenue + orderTotal\<rparr>)
                in r2\<lparr>checkedoutRevenue := checkedoutRevenue r2 + checkedoutTotal\<rparr>)
             else revenue)
      in save_revenue revenue' revs)"

section \<open>JavaScript helpers\<close>

text \<open>\<^verbatim>\<open>a || b\<close> on strings: the empty string (and \<^verbatim>\<open>undefined\<close>) is falsy.\<close>

definition or_else :: "string \<Rightarrow> string \<Rightarrow> string" where
  "or_else a b = (if a = [] then b else a)"

text \<open>The Arabic placeholder for a missing contact field ("unspecified"), as its UTF-8 bytes.\<close>

definition unspecified :: string where
  "unspecified = [CHR 0xD8, CHR 0xBA, CHR 0xD9, CHR 0x8A, CHR 0xD8, CHR 0xB1, CHR 0x20,
                  CHR 0xD9, CHR 0x85, CHR 0xD8, CHR 0xAD, CHR 0xD8, CHR 0xAF, CHR 0xD8, CHR 0xAF]"

text \<open>\<^verbatim>\<open>Array.prototype.findIndex\<close>; \<open>None\<close> is the result \<open>-1\<close>.\<close>

fun findIndex :: "('a \<Rightarrow> bool) \<Rightarrow> 'a list \<Rightarrow> nat option" where
  "findIndex P [] = None"
| "findIndex P (x # xs) = (if P x then Some 0 else map_option Suc (findIndex P xs))"

text \<open>\<^verbatim>\<open>xs.splice(i, 1)\<close>\<close>

definition splice1 :: "nat \<Rightarrow> 'a list \<Rightarrow> 'a list" where
  "splice1 i xs = take i xs @ drop (Suc i) xs"

text \<open>\<^verbatim>\<open>items.reduce((sum, item) => sum + item.itemTotal, 0)\<close>\<close>

definition items_total :: "order_item list \<Rightarrow> int" where
  "items_total its = foldl (\<lambda>sum item. sum + itemTotal item) 0 its"

text \<open>\<^verbatim>\<open>product.new_price || product.newprice || 0\<close>\<close>

definition price_or_zero :: "product \<Rightarrow> int" where
  "price_or_zero p =
     (if new_price p \<noteq> 0 then new_price p
      else case newprice p of Some v \<Rightarrow> (if v \<noteq> 0 then v else 0) | None \<Rightarrow> 0)"

text \<open>\<^verbatim>\<open>product.new_price || product.newprice\<close>; \<open>None\<close> is \<^verbatim>\<open>undefined\<close>.\<close>

definition price_or_undefined :: "product \<Rightarrow> int option" where
  "price_or_undefined p = (if new_price p \<noteq> 0 then Some (new_price p) else newprice p)"

section \<open>Cart store\<close>

text \<open>
  Property assignment and deletion on the two levels of \<^verbatim>\<open>cartData\<close>. An assignment to an
  existing key keeps its position. A new size label is enumerated last. A new product
  key is a canonical array index when it is not negative, and such keys are enumerated
  first, in ascending order; a negative key is enumerated last. Product ids are taken to
  be below the array index limit, and size labels not to be array indices.
\<close>

fun assign_size :: "string \<Rightarrow> int \<Rightarrow> size_map \<Rightarrow> size_map" where
  "assign_size k v [] = [(k, v)]"
| "assign_size k v ((k', v') # r) =
     (if k' = k then (k, v) # r else (k', v') # assign_size k v r)"

fun assign_product :: "int \<Rightarrow> size_map \<Rightarrow> cart \<Rightarrow> cart" where
  "assign_product k v [] = [(k, v)]"
| "assign_product k v ((k', v') # r) =
     (if k' = k then (k, v) # r
      else if 0 \<le> k \<and> (k' < 0 \<or> k < k') then (k, v) # (k', v') # r
      else (k', v') # assign_product k v r)"

definition delete_key :: "'k \<Rightarrow> ('k \<times> 'v) list \<Rightarrow> ('k \<times> 'v) list" where
  "delete_key k kvs = filter (\<lambda>kv. fst kv \<noteq> k) kvs"

text \<open>\<^verbatim>\<open>cart[itemId]?.[size] || 0\<close>\<close>

definition cart_quantity :: "cart \<Rightarrow> int \<Rightarrow> string \<Rightarrow> int" where
  "cart_quantity c k sz =
     (case map_of c k of None \<Rightarrow> 0
      | Some sm \<Rightarrow> (case map_of sm sz of None \<Rightarrow> 0 | Some q \<Rightarrow> q))"

text \<open>The cart update of \<^verbatim>\<open>/addtocart\<close>, lines 3347-3358.\<close>

definition add_cart_line :: "int \<Rightarrow> string \<Rightarrow> int \<Rightarrow> cart \<Rightarrow> cart" where
  "add_cart_line productKey sz qty c =
     (let c1 = (case map_of c productKey of None \<Rightarrow> assign_product productKey [] c | Some _ \<Rightarrow> c);
          sm1 = (case map_of c1 productKey of None \<Rightarrow> [] | Some sm \<Rightarrow> sm);
          sm2 = (case map_of sm1 sz of
                   None \<Rightarrow> assign_size sz 0 sm1
                 | Some q \<Rightarrow> (if q = 0 then assign_size sz 0 sm1 else sm1));
          oldQuantity = (case map_of sm2 sz of None \<Rightarrow> 0 | Some q \<Rightarrow> q);
          sm3 = assign_size sz (oldQuantity + qty) sm2;
          sm4 = (if oldQuantity + qty \<le> 0 then delete_key sz sm3 else sm3)
      in if sm4 = [] then delete_key productKey c1 else assign_product productKey sm4 c1)"

text \<open>The cart update of \<^verbatim>\<open>/updatecartquantity\<close>, lines 3200-3214.\<close>

definition set_cart_line :: "int \<Rightarrow> string \<Rightarrow> int \<Rightarrow> cart \<Rightarrow> cart" where
  "set_cart_line itemId sz newQuantity c =
     (let c1 = (case map_of c itemId of None \<Rightarrow> assign_product itemId [] c | Some _ \<Rightarrow> c);
          sm1 = (case map_of c1 itemId of None \<Rightarrow> [] | Some sm \<Rightarrow> sm);
          sm2 = assign_size sz newQuantity sm1
      in if newQuantity \<le> 0 then
           (let sm3 = delete_key sz sm2
            in if sm3 = [] then delete_key itemId c1 else assign_product itemId sm3 c1)
         else assign_product itemId sm2 c1)"

section \<open>Order persistence\<close>

definition payment_methods :: "string list" where
  "payment_methods = [''cash_on_delivery'', ''bank_transfer'', ''stripe'', ''paypal'']"

text \<open>Schema validation run by \<^verbatim>\<open>order.save()\<close>: the \<^verbatim>\<open>paymentMethod\<close> enum and the
  required strings (a required string must not be empty). The numeric fields are always
  defined in this model.\<close>

definition order_valid :: "order \<Rightarrow> bool" where
  "order_valid ord =
     (paymentMethod ord \<in> set payment_methods \<and>
      ci_fullName (customerInfo ord) \<noteq> [] \<and>
      ci_email (customerInfo ord) \<noteq> [] \<and>
      ci_phone (customerInfo ord) \<noteq> [] \<and>
      ci_address (customerInfo ord) \<noteq> [] \<and>
      ci_governorate (customerInfo ord) \<noteq> [] \<and>
      list_all (\<lambda>item. productName item \<noteq> []) (items ord))"

text \<open>\<^verbatim>\<open>save()\<close> of a new document: it receives a fresh \<^verbatim>\<open>_id\<close> and its \<^verbatim>\<open>createdAt\<close>;
  the save is rejected (\<open>None\<close>, an exception in the source) when validation fails or
  when the unique index on \<^verbatim>\<open>orderId\<close> is violated.\<close>

definition insert_order :: "cal_date \<Rightarrow> order \<Rightarrow> state \<Rightarrow> (order \<times> state) option" where
  "insert_order now ord st =
     (let ord' = ord\<lparr>oid := next_oid st, createdAt := Some now\<rparr>
      in if order_valid ord' \<and> orderId ord' \<notin> set (map orderId (orders st))
         then Some (ord', st\<lparr>orders := orders st @ [ord'], next_oid := Suc (next_oid st)\<rparr>)
         else None)"

text \<open>\<^verbatim>\<open>save()\<close> of a loaded document: the stored document with the same \<^verbatim>\<open>_id\<close> is
  replaced.\<close>

fun replace_order :: "order \<Rightarrow> order list \<Rightarrow> order list" where
  "replace_order ord [] = []"
| "replace_order ord (x # xs) =
     (if oid x = oid ord then ord # xs else x # replace_order ord xs)"

definition save_order :: "order \<Rightarrow> state \<Rightarrow> state option" where
  "save_order ord st =
     (if order_valid ord then Some (st\<lparr>orders := replace_order ord (orders st)\<rparr>) else None)"

text \<open>\<^verbatim>\<open>Order.findOne({ userId: user._id, status: 'pending' })\<close>\<close>

definition find_pending :: "nat \<Rightarrow> order list \<Rightarrow> order option" where
  "find_pending uid ords = find (\<lambda>ord. userId ord = uid \<and> status ord = Pending) ords"

text \<open>The defaults of a new order document for the fields a constructor call leaves out.\<close>

definition new_order ::
  "nat \<Rightarrow> nat \<Rightarrow> customer_info \<Rightarrow> order_item list \<Rightarrow> int \<Rightarrow> string \<Rightarrow> string option \<Rightarrow> order" where
  "new_order order_id uid info its tot pm txn =
     \<lparr>oid = 0, orderId = order_id, userId = uid, customerInfo = info, items = its,
      total = tot, status = Pending, paymentMethod = pm, paymentStatus = Pay_pending,
      transactionId = txn, order_notes = None, trackingNumber = None, deliveredAt = None,
      cancelledAt = None, cancellationReason = None, createdAt = None\<rparr>"

text \<open>The cancellation of an order whose item list became empty (lines 890-895 and
  3257-3261).\<close>

definition cancel_if_empty :: "cal_date \<Rightarrow> order \<Rightarrow> order" where
  "cancel_if_empty now ord =
     (if items ord = [] then
        ord\<lparr>status := Cancelled, cancelledAt := Some now,
            cancellationReason := Some ''All items removed from cart''\<rparr>
      else ord)"

section \<open>Order reconciler\<close>

text \<open>The item-list update of \<^verbatim>\<open>createOrUpdateOrder\<close> on an existing order, lines 851-880.\<close>

definition merge_item ::
  "product \<Rightarrow> int \<Rightarrow> string \<Rightarrow> string \<Rightarrow> order_item list \<Rightarrow> order_item list" where
  "merge_item product qty sz action its =
     (let itemTotal0 = price_or_zero product * \<bar>qty\<bar> in
      case findIndex (\<lambda>item. productId item = prod_id product \<and> item_size item = sz) its of
        Some existingItemIndex \<Rightarrow>
          (let item = its ! existingItemIndex in
           if action = ''add'' \<and> qty > 0 then
             its[existingItemIndex :=
                   item\<lparr>quantity := quantity item + qty, itemTotal := itemTotal item + itemTotal0\<rparr>]
           else if qty < 0 then
             (let item1 = item\<lparr>quantity := quantity item + qty\<rparr>;
                  item2 = item1\<lparr>itemTotal := price item1 * quantity item1\<rparr>
              in if quantity item2 \<le> 0 then splice1 existingItemIndex its
                 else its[existingItemIndex := item2])
           else its)
      | None \<Rightarrow>
          (if action = ''add'' \<and> qty > 0 then
             its @ [\<lparr>productId = prod_id product, productName = prod_name product,
                     productImage = prod_image product, quantity = \<bar>qty\<bar>,
                     price = price_or_zero product, item_size = sz,
                     itemTotal = itemTotal0, istatus = In_cart\<rparr>]
           else its))"

text \<open>\<^verbatim>\<open>createOrUpdateOrder(user, product, quantity, size, paymentMethod, action)\<close>, lines
  784-907; \<open>uid\<close> is \<^verbatim>\<open>user._id\<close>. The result \<open>None\<close> is the re-thrown exception of a
  rejected save.\<close>

definition createOrUpdateOrder ::
  "cal_date \<Rightarrow> nat \<Rightarrow> user \<Rightarrow> product \<Rightarrow> int \<Rightarrow> string \<Rightarrow> string \<Rightarrow> string \<Rightarrow> state \<Rightarrow> state option"
  where
  "createOrUpdateOrder now uid usr product qty sz pm action st =
     (let normalizedPaymentMethod =
            (if pm = ''online'' then ''bank_transfer''
             else if pm = ''cash'' then ''cash_on_delivery'' else pm);
          itemTotal0 = price_or_zero product * \<bar>qty\<bar>
      in case find_pending uid (orders st) of
           None \<Rightarrow>
             (if action = ''add'' \<and> qty > 0 then
                (let orderItems =
                       [\<lparr>productId = prod_id product, productName = prod_name product,
                         productImage = prod_image product, quantity = \<bar>qty\<bar>,
                         price = price_or_zero product, item_size = sz,
                         itemTotal = itemTotal0, istatus = In_cart\<rparr>];
                     count = length (orders st);
                     info = \<lparr>ci_fullName = or_else (fullName usr) ''Unknown User'',
                             ci_email = email usr,
                             ci_phone = or_else (phone usr) unspecified,
                             ci_address = or_else (address usr) unspecified,
                             ci_governorate = or_else (governorate usr) unspecified\<rparr>
                 in case insert_order now
                           (new_order (count + 1) uid info orderItems itemTotal0
                              normalizedPaymentMethod None) st of
                      None \<Rightarrow> None
                    | Some (ord, st1) \<Rightarrow>
                        Some (st1\<lparr>revenues := updateRevenue now ord ''add'' (revenues st1)\<rparr>))
              else Some st)
         | Some ord \<Rightarrow>
             (let ord1 = ord\<lparr>items := merge_item product qty sz action (items ord)\<rparr>;
                  ord2 = (if pm \<noteq> [] \<and> normalizedPaymentMethod \<noteq> paymentMethod ord1
                          then ord1\<lparr>paymentMethod := normalizedPaymentMethod\<rparr> else ord1);
                  ord3 = ord2\<lparr>total := items_total (items ord2)\<rparr>;
                  ord4 = cancel_if_empty now ord3
              in case save_order ord4 st of
                   None \<Rightarrow> None
                 | Some st1 \<Rightarrow>
                     Some (st1\<lparr>revenues := updateRevenue now ord4 ''update'' (revenues st1)\<rparr>)))"

section \<open>Cart routes\<close>

definition default_sizes :: "string list" where
  "default_sizes = [''S'', ''M'', ''L'', ''XL'', ''XXL'']"

text \<open>\<^verbatim>\<open>app.post('/addtocart')\<close>, lines 3280-3385. \<open>quantity_in = None\<close> is a request without
  a quantity, an empty \<open>size_in\<close> or \<open>pm_in\<close> a request without that field. For a numeric
  id that no product has, the handler goes on to the fallback query of lines 3311-3318,
  whose \<^verbatim>\<open>_id\<close> condition cannot be cast to a document id: the query throws and the
  handler answers 500. The item id 0 is falsy, so that \<^verbatim>\<open>itemId\<close> is \<^verbatim>\<open>undefined\<close> (no
  \<^verbatim>\<open>productId\<close> is sent): the lookup by number is skipped and the fallback query throws
  as well. A product found with the id 0 fails the check of line 3324 (404).
  The user is saved before the order is reconciled, so a rejected order save leaves the
  cart changed.\<close>

definition addtocart ::
  "cal_date \<Rightarrow> nat \<Rightarrow> int \<Rightarrow> int option \<Rightarrow> string \<Rightarrow> string \<Rightarrow> state \<Rightarrow> (error + cart) \<times> state"
  where
  "addtocart now uid itemId quantity_in size_in pm_in st =
     (let qty = (case quantity_in of None \<Rightarrow> 1 | Some q \<Rightarrow> q);
          sz = or_else size_in ''default'';
          pm = or_else pm_in ''cash_on_delivery''
      in if qty = 0 then (Inl Invalid_quantity, st)
         else if sz = ''default'' then (Inl Size_required, st)
         else if itemId = 0 then (Inl Internal_server_error, st)
         else case find (\<lambda>p. prod_id p = itemId) (products st) of
           None \<Rightarrow> (Inl Internal_server_error, st)
         | Some productExists \<Rightarrow>
             if prod_id productExists = 0 then (Inl Product_not_found, st)
             else
               (let availableSizes =
                      (if sizes productExists \<noteq> [] then sizes productExists else default_sizes)
                in if sz \<notin> set availableSizes then (Inl Invalid_size, st)
                   else case users st uid of
                     None \<Rightarrow> (Inl User_not_found, st)
                   | Some usr \<Rightarrow>
                       (let usr1 = usr\<lparr>cartData :=
                                        add_cart_line (prod_id productExists) sz qty (cartData usr)\<rparr>;
                            usr2 = usr1\<lparr>fullName := or_else (fullName usr1) ''Unknown User''\<rparr>;
                            st1 = st\<lparr>users := (users st)(uid \<mapsto> usr2)\<rparr>
                        in case createOrUpdateOrder now uid usr2 productExists qty sz pm ''add'' st1 of
                             None \<Rightarrow> (Inl Internal_server_error, st1)
                           | Some st2 \<Rightarrow> (Inr (cartData usr2), st2))))"

text \<open>The item-list update of \<^verbatim>\<open>/updatecartquantity\<close>, lines 3226-3251. The price is
  \<^verbatim>\<open>product.new_price || product.newprice\<close>; when that is \<^verbatim>\<open>undefined\<close> the item total is
  not a number and the later save is rejected (\<open>None\<close>).\<close>

definition set_item ::
  "product \<Rightarrow> int \<Rightarrow> string \<Rightarrow> int \<Rightarrow> order_item list \<Rightarrow> order_item list option" where
  "set_item product itemId sz newQuantity its =
     (case findIndex (\<lambda>item. productId item = itemId \<and> item_size item = sz) its of
        Some existingItemIndex \<Rightarrow>
          (if newQuantity \<le> 0 then Some (splice1 existingItemIndex its)
           else case price_or_undefined product of
                  None \<Rightarrow> None
                | Some p \<Rightarrow>
                    Some (its[existingItemIndex :=
                                (its ! existingItemIndex)\<lparr>quantity := newQuantity,
                                                           itemTotal := p * newQuantity\<rparr>]))
      | None \<Rightarrow>
          (if newQuantity > 0 then
             (case price_or_undefined product of
                None \<Rightarrow> None
              | Some p \<Rightarrow>
                  Some (its @ [\<lparr>productId = itemId, productName = prod_name product,
                                productImage = prod_image product, quantity = newQuantity,
                                price = p, item_size = sz, itemTotal = p * newQuantity,
                                istatus = In_cart\<rparr>]))
           else Some its))"

text \<open>\<^verbatim>\<open>app.post('/updatecartquantity')\<close>, lines 3159-3279. The request's \<^verbatim>\<open>quantity\<close> is
  added to the stored quantity (line 3190).\<close>

definition updatecartquantity ::
  "cal_date \<Rightarrow> nat \<Rightarrow> int \<Rightarrow> string option \<Rightarrow> int option \<Rightarrow> state \<Rightarrow> (error + cart) \<times> state"
  where
  "updatecartquantity now uid itemId size_in quantity_in st =
     (case (size_in, quantity_in) of
        (Some sz, Some qty) \<Rightarrow>
          (if itemId = 0 then (Inl Missing_fields, st)
           else case users st uid of
             None \<Rightarrow> (Inl User_not_found, st)
           | Some usr \<Rightarrow>
               (case find (\<lambda>p. prod_id p = itemId) (products st) of
                  None \<Rightarrow> (Inl Product_not_found, st)
                | Some product \<Rightarrow>
                    (let currentQuantity = cart_quantity (cartData usr) itemId sz;
                         newQuantity = currentQuantity + qty
                     in if newQuantity < 0 then (Inl Negative_quantity, st)
                        else
                          (let usr1 = usr\<lparr>cartData :=
                                           set_cart_line itemId sz newQuantity (cartData usr)\<rparr>;
                               st1 = st\<lparr>users := (users st)(uid \<mapsto> usr1)\<rparr>
                           in case find_pending uid (orders st1) of
                                None \<Rightarrow> (Inr (cartData usr1), st1)
                              | Some ord \<Rightarrow>
                                  (case set_item product itemId sz newQuantity (items ord) of
                                     None \<Rightarrow> (Inl Internal_server_error, st1)
                                   | Some its \<Rightarrow>
                                       (let ord1 = ord\<lparr>items := its\<rparr>;
                                            ord2 = ord1\<lparr>total := items_total (items ord1)\<rparr>;
                                            ord3 = cancel_if_empty now ord2
                                        in case save_order ord3 st1 of
                                             None \<Rightarrow> (Inl Internal_server_error, st1)
                                           | Some st2 \<Rightarrow>
                                               (Inr (cartData usr1),
                                                st2\<lparr>revenues :=
                                                      updateRevenue now ord3 ''update''
                                                        (revenues st2)\<rparr>)))))))
      | _ \<Rightarrow> (Inl Missing_fields, st))"

text \<open>\<^verbatim>\<open>app.post('/clearcart')\<close>, lines 3438-3473.\<close>

definition clearcart :: "cal_date \<Rightarrow> nat \<Rightarrow> state \<Rightarrow> (error + cart) \<times> state" where
  "clearcart now uid st =
     (case users st uid of
        None \<Rightarrow> (Inl User_not_found, st)
      | Some usr \<Rightarrow>
          (let cancelled =
                 (case find_pending uid (orders st) of
                    None \<Rightarrow> Some st
                  | Some pendingOrder \<Rightarrow>
                      (let ord1 = pendingOrder\<lparr>status := Cancelled, cancelledAt := Some now,
                                               cancellationReason := Some ''Cart cleared by user''\<rparr>
                       in case save_order ord1 st of
                            None \<Rightarrow> None
                          | Some st1 \<Rightarrow>
                              Some (st1\<lparr>revenues :=
                                          updateRevenue now ord1 ''update'' (revenues st1)\<rparr>)))
           in case cancelled of
                None \<Rightarrow> (Inl Internal_server_error, st)
              | Some st1 \<Rightarrow>
                  (Inr [], st1\<lparr>users := (users st1)(uid \<mapsto> usr\<lparr>cartData := []\<rparr>)\<rparr>)))"

section \<open>Checkout\<close>

text \<open>The request's \<^verbatim>\<open>address\<close>: a string, or an object with \<^verbatim>\<open>address\<close> and
  \<^verbatim>\<open>governorate\<close> fields (empty when absent).\<close>

datatype address_in = Addr_text string | Addr_object string string

text \<open>\<^verbatim>\<open>!address\<close>\<close>

fun address_missing :: "address_in \<Rightarrow> bool" where
  "address_missing (Addr_text s) = (s = [])"
| "address_missing (Addr_object a g) = False"

text \<open>\<^verbatim>\<open>address.address || address\<close> as a value of the string field
  \<^verbatim>\<open>customerInfo.address\<close>; an object cannot be cast to a string (\<open>None\<close>), and the save
  is then rejected.\<close>

fun address_field :: "address_in \<Rightarrow> string option" where
  "address_field (Addr_text s) = Some s"
| "address_field (Addr_object a g) = (if a \<noteq> [] then Some a else None)"

text \<open>\<^verbatim>\<open>address.governorate || <placeholder>\<close>\<close>

fun governorate_field :: "address_in \<Rightarrow> string" where
  "governorate_field (Addr_text s) = unspecified"
| "governorate_field (Addr_object a g) = or_else g unspecified"

text \<open>The inner loop of lines 3601-3620 over the sizes of one product, on the accumulators
  \<^verbatim>\<open>updatedItems\<close> and \<^verbatim>\<open>totalAmount\<close>.\<close>

fun checkout_sizes ::
  "product \<Rightarrow> int \<Rightarrow> size_map \<Rightarrow> order_item list \<times> int \<Rightarrow> order_item list \<times> int" where
  "checkout_sizes product productKey [] acc = acc"
| "checkout_sizes product productKey ((sz, qty) # rest) (updatedItems, totalAmount) =
     (if qty > 0 then
        (let price0 = price_or_zero product;
             itemTotal0 = price0 * qty
         in checkout_sizes product productKey rest
              (updatedItems @
                 [\<lparr>productId = productKey, productName = prod_name product,
                   productImage = prod_image product, quantity = qty, price = price0,
                   item_size = sz, itemTotal = itemTotal0, istatus = Checkedout\<rparr>],
               totalAmount + itemTotal0))
      else checkout_sizes product productKey rest (updatedItems, totalAmount))"

text \<open>The outer loop of lines 3595-3621 over the products of the cart; a product that is
  not found is passed over (\<^verbatim>\<open>continue\<close>).\<close>

fun checkout_products ::
  "product list \<Rightarrow> cart \<Rightarrow> order_item list \<times> int \<Rightarrow> order_item list \<times> int" where
  "checkout_products prods [] acc = acc"
| "checkout_products prods ((productKey, sm) # rest) acc =
     (case find (\<lambda>p. prod_id p = productKey) prods of
        None \<Rightarrow> checkout_products prods rest acc
      | Some product \<Rightarrow>
          checkout_products prods rest (checkout_sizes product productKey sm acc))"

text \<open>\<^verbatim>\<open>app.post('/checkout')\<close>, lines 3554-3730. The cart is emptied and saved (lines
  3623-3626) before the order is written.\<close>

definition checkout ::
  "cal_date \<Rightarrow> nat \<Rightarrow> address_in \<Rightarrow> string \<Rightarrow> string \<Rightarrow> string option \<Rightarrow> state
     \<Rightarrow> (error + order) \<times> state" where
  "checkout now uid addr phone_in pm txn st =
     (if address_missing addr \<or> phone_in = [] \<or> pm = [] then (Inl Missing_fields, st)
      else if pm \<notin> set payment_methods then (Inl Invalid_payment_method, st)
      else case users st uid of
        None \<Rightarrow> (Inl User_not_found, st)
      | Some usr \<Rightarrow>
          if cartData usr = [] then (Inl Empty_cart, st)
          else
            (let (updatedItems, totalAmount) = checkout_products (products st) (cartData usr) ([], 0);
                 usr1 = usr\<lparr>cartData := []\<rparr>;
                 st1 = st\<lparr>users := (users st)(uid \<mapsto> usr1)\<rparr>
             in case address_field addr of
                  None \<Rightarrow> (Inl Internal_server_error, st1)
                | Some addr_text \<Rightarrow>
                    (let info = \<lparr>ci_fullName = or_else (fullName usr1) ''Unknown User'',
                                 ci_email = email usr1, ci_phone = phone_in,
                                 ci_address = addr_text,
                                 ci_governorate = governorate_field addr\<rparr>
                     in case find_pending uid (orders st1) of
                          Some ord \<Rightarrow>
                            (let ord1 = ord\<lparr>items := updatedItems, total := totalAmount,
                                            customerInfo := info, paymentMethod := pm,
                                            paymentStatus := Pay_pending, transactionId := txn\<rparr>
                             in case save_order ord1 st1 of
                                  None \<Rightarrow> (Inl Internal_server_error, st1)
                                | Some st2 \<Rightarrow>
                                    (Inr ord1,
                                     st2\<lparr>revenues :=
                                           updateRevenue now ord1 ''update'' (revenues st2)\<rparr>))
                        | None \<Rightarrow>
                            (let count = length (orders st1)
                             in case insert_order now
                                       (new_order (count + 1) uid info updatedItems totalAmount
                                          pm txn) st1 of
                                  None \<Rightarrow> (Inl Internal_server_error, st1)
                                | Some (ord, st2) \<Rightarrow>
                                    (Inr ord,
                                     st2\<lparr>revenues :=
                                           updateRevenue now ord ''add'' (revenues st2)\<rparr>)))))"

text \<open>\<^verbatim>\<open>app.post('/createorder')\<close>, lines 3747-3791. \<open>shipping\<close> is the optional
  \<^verbatim>\<open>shippingAddress\<close> object with its \<^verbatim>\<open>address\<close>, \<^verbatim>\<open>phone\<close> and \<^verbatim>\<open>governorate\<close>.\<close>

definition createorder ::
  "cal_date \<Rightarrow> nat \<Rightarrow> (string \<times> string \<times> string) option \<Rightarrow> string \<Rightarrow> string \<Rightarrow> state
     \<Rightarrow> (error + order) \<times> state" where
  "createorder now uid shipping pm notes_in st =
     (case find_pending uid (orders st) of
        None \<Rightarrow> (Inl No_pending_order, st)
      | Some existingOrder \<Rightarrow>
          (let info = customerInfo existingOrder;
               info1 = (case shipping of
                          None \<Rightarrow> info
                        | Some (a, p, g) \<Rightarrow>
                            info\<lparr>ci_address := or_else a (ci_address info),
                                 ci_phone := or_else p (ci_phone info),
                                 ci_governorate := or_else g (ci_governorate info)\<rparr>);
               ord1 = existingOrder\<lparr>customerInfo := info1,
                                     paymentMethod := or_else pm (paymentMethod existingOrder),
                                     order_notes := Some notes_in,
                                     status := Processing\<rparr>
           in case save_order ord1 st of
                None \<Rightarrow> (Inl Internal_server_error, st)
              | Some st1 \<Rightarrow>
                  (let st2 = (case users st1 uid of
                                None \<Rightarrow> st1
                              | Some usr \<Rightarrow>
                                  st1\<lparr>users := (users st1)(uid \<mapsto> usr\<lparr>cartData := []\<rparr>)\<rparr>)
                   in (Inr ord1,
                       st2\<lparr>revenues := updateRevenue now ord1 ''update'' (revenues st2)\<rparr>))))"

section \<open>Admin routes\<close>

text \<open>The status list of line 2128.\<close>

definition parse_status :: "string \<Rightarrow> order_status option" where
  "parse_status s =
     (if s = ''pending'' then Some Pending
      else if s = ''processing'' then Some Processing
      else if s = ''shipped'' then Some Shipped
      else if s = ''delivered'' then Some Delivered
      else if s = ''cancelled'' then Some Cancelled
      else None)"

text \<open>The field updates of \<^verbatim>\<open>app.post('/admin/orders/:orderId/status')\<close>, lines 2136-2162,
  on the loaded order; an empty string is an absent body field.\<close>

definition apply_status ::
  "cal_date \<Rightarrow> order_status \<Rightarrow> string \<Rightarrow> string \<Rightarrow> string \<Rightarrow> order \<Rightarrow> order" where
  "apply_status now s notes_in tracking_in reason_in ord =
     (let ord1 = ord\<lparr>status := s\<rparr>;
          ord2 = (if notes_in \<noteq> [] then ord1\<lparr>order_notes := Some notes_in\<rparr> else ord1);
          ord3 = (if tracking_in \<noteq> [] then ord2\<lparr>trackingNumber := Some tracking_in\<rparr>
                  else ord2)
      in if s = Delivered then
           ord3\<lparr>deliveredAt := Some now, paymentStatus := Paid\<rparr>
         else if s = Cancelled then
           (let ord5 = ord3\<lparr>cancelledAt := Some now, paymentStatus := Failed\<rparr>
            in if reason_in \<noteq> [] then ord5\<lparr>cancellationReason := Some reason_in\<rparr>
               else ord5)
         else ord3)"

text \<open>\<^verbatim>\<open>app.post('/admin/orders/:orderId/status')\<close>, lines 2124-2187; \<open>order_oid\<close> is the
  \<^verbatim>\<open>_id\<close> in the path.\<close>

definition admin_order_status ::
  "cal_date \<Rightarrow> nat \<Rightarrow> string \<Rightarrow> string \<Rightarrow> string \<Rightarrow> string \<Rightarrow> state \<Rightarrow> (error + order) \<times> state"
  where
  "admin_order_status now order_oid status_in notes_in tracking_in reason_in st =
     (case parse_status status_in of
        None \<Rightarrow> (Inl Invalid_status, st)
      | Some s \<Rightarrow>
          (case find (\<lambda>ord. oid ord = order_oid) (orders st) of
             None \<Rightarrow> (Inl Order_not_found, st)
           | Some ord \<Rightarrow>
               (let ord4 = apply_status now s notes_in tracking_in reason_in ord
                in case save_order ord4 st of
                     None \<Rightarrow> (Inl Internal_server_error, st)
                   | Some st1 \<Rightarrow>
                       (Inr ord4,
                        st1\<lparr>revenues := updateRevenue now ord4 ''update'' (revenues st1)\<rparr>))))"

text \<open>\<^verbatim>\<open>app.delete('/admin/orders/:orderId')\<close>, lines 2189-2212.\<close>

definition admin_delete_order :: "cal_date \<Rightarrow> nat \<Rightarrow> state \<Rightarrow> (error + unit) \<times> state" where
  "admin_delete_order now order_oid st =
     (case find (\<lambda>ord. oid ord = order_oid) (orders st) of
        None \<Rightarrow> (Inl Order_not_found, st)
      | Some ord \<Rightarrow>
          (let st1 = st\<lparr>revenues := updateRevenue now ord ''remove'' (revenues st)\<rparr>
           in (Inr (), st1\<lparr>orders := filter (\<lambda>x. oid x \<noteq> order_oid) (orders st1)\<rparr>)))"








section \<open>Client operations\<close>

text \<open>
  The storefront's context functions. The client's \<^verbatim>\<open>cartItems\<close> is the server's cart
  of the user, which every successful response writes back
  (\<^verbatim>\<open>setCartItems(normalizeCartData(data.cartData, ...))\<close>), and its \<^verbatim>\<open>all_product\<close> is the
  server's catalog.
\<close>

datatype client_result =
    No_change
  | Client_product_not_found
  | Size_not_selected
  | Server_ok cart
  | Server_failed error

definition client_cart :: "state \<Rightarrow> nat \<Rightarrow> cart" where
  "client_cart st uid = (case users st uid of None \<Rightarrow> [] | Some usr \<Rightarrow> cartData usr)"

definition server_reply :: "(error + cart) \<times> state \<Rightarrow> client_result \<times> state" where
  "server_reply r = (case r of (Inl e, st) \<Rightarrow> (Server_failed e, st) | (Inr c, st) \<Rightarrow> (Server_ok c, st))"

text \<open>\<^verbatim>\<open>addToCart(itemId, selectedSize, paymentMethod)\<close> of the shop context: one unit.\<close>

definition addToCart ::
  "cal_date \<Rightarrow> nat \<Rightarrow> int \<Rightarrow> string \<Rightarrow> string \<Rightarrow> state \<Rightarrow> client_result \<times> state" where
  "addToCart now uid itemId selectedSize pm st =
     (if selectedSize = [] \<or> selectedSize = ''default'' then (Size_not_selected, st)
      else case find (\<lambda>p. prod_id p = itemId) (products st) of
        None \<Rightarrow> (Client_product_not_found, st)
      | Some product \<Rightarrow>
          server_reply (addtocart now uid (prod_id product) (Some 1) selectedSize
                          (or_else pm ''cash'') st))"

text \<open>\<^verbatim>\<open>removeFromCart(itemId, selectedSize)\<close> of the shop context: one unit less.\<close>

definition removeFromCart ::
  "cal_date \<Rightarrow> nat \<Rightarrow> int \<Rightarrow> string \<Rightarrow> state \<Rightarrow> client_result \<times> state" where
  "removeFromCart now uid itemId selectedSize st =
     (case find (\<lambda>p. prod_id p = itemId) (products st) of
        None \<Rightarrow> (Client_product_not_found, st)
      | Some product \<Rightarrow>
          server_reply (addtocart now uid (prod_id product) (Some (- 1)) selectedSize [] st))"

text \<open>\<^verbatim>\<open>updateCartQuantity(itemId, size, newQuantity)\<close>, \<^verbatim>\<open>server.js\<close> lines 2967-3158 (the
  same function as in the shop context): the difference to the current quantity is
  posted to \<^verbatim>\<open>/addtocart\<close>.\<close>

definition updateCartQuantity ::
  "cal_date \<Rightarrow> nat \<Rightarrow> int \<Rightarrow> string \<Rightarrow> int \<Rightarrow> state \<Rightarrow> client_result \<times> state" where
  "updateCartQuantity now uid itemId sz newQuantity st =
     (case find (\<lambda>p. prod_id p = itemId) (products st) of
        None \<Rightarrow> (Client_product_not_found, st)
      | Some product \<Rightarrow>
          (let productIdToSend = prod_id product;
               currentQuantity = cart_quantity (client_cart st uid) productIdToSend sz
           in if newQuantity = currentQuantity then (No_change, st)
              else
                (let difference = newQuantity - currentQuantity
                 in server_reply (addtocart now uid productIdToSend (Some difference) sz
                                    ''cash'' st))))"

text \<open>\<^verbatim>\<open>getProductQuantity(itemId, size)\<close> of the shop context; an empty \<open>sz\<close> is the
  absent size, for which the quantities of all sizes are added up.\<close>

definition getProductQuantity :: "cart \<Rightarrow> int \<Rightarrow> string \<Rightarrow> int" where
  "getProductQuantity c itemId sz =
     (let itemData = (case map_of c itemId of None \<Rightarrow> [] | Some sm \<Rightarrow> sm)
      in if sz \<noteq> [] then (case map_of itemData sz of None \<Rightarrow> 0 | Some q \<Rightarrow> q)
         else foldl (\<lambda>t sq. t + snd sq) 0 itemData)"

text \<open>\<^verbatim>\<open>handleUpdateQuantity(itemId, size, newQuantity)\<close> of the cart page
  (\<^verbatim>\<open>CartItem.jsx\<close>, lines 67-108): the requested quantity is clamped to 1..10.\<close>

definition handleUpdateQuantity ::
  "cal_date \<Rightarrow> nat \<Rightarrow> int \<Rightarrow> string \<Rightarrow> int \<Rightarrow> state \<Rightarrow> client_result \<times> state" where
  "handleUpdateQuantity now uid itemId sz newQuantity st =
     (let newQuantity1 = (if newQuantity < 1 then 1
                          else if newQuantity > 10 then 10 else newQuantity);
          currentQuantity = getProductQuantity (client_cart st uid) itemId sz
      in if newQuantity1 = currentQuantity then (No_change, st)
         else updateCartQuantity now uid itemId sz newQuantity1 st)"

section \<open>Notions used to state the properties\<close>

text \<open>The counter that an order of a given status is added to.\<close>

fun status_bucket :: "order_status \<Rightarrow> revenue \<Rightarrow> int" where
  "status_bucket Delivered r = deliveredRevenue r"
| "status_bucket Cancelled r = cancelledRevenue r"
| "status_bucket _ r = pendingRevenue r"

text \<open>The calendar day \<^verbatim>\<open>updateRevenue\<close> files an order under.\<close>

definition order_day :: "cal_date \<Rightarrow> order \<Rightarrow> cal_date" where
  "order_day now orderData = (case createdAt orderData of Some d \<Rightarrow> d | None \<Rightarrow> now)"

text \<open>The sum of the item totals of the checked-out items of an order.\<close>

definition checkedout_sum :: "order \<Rightarrow> int" where
  "checkedout_sum ord = sum_list (map itemTotal (filter (\<lambda>item. istatus item = Checkedout) (items ord)))"

text \<open>The order that \<^verbatim>\<open>createOrUpdateOrder\<close> builds when the user has no pending one.\<close>

definition first_order :: "cal_date \<Rightarrow> nat \<Rightarrow> user \<Rightarrow> product \<Rightarrow> int \<Rightarrow> string \<Rightarrow> string \<Rightarrow> state \<Rightarrow> order"
  where
  "first_order now uid usr pr q sz pm st =
     (new_order (length (orders st) + 1) uid
        \<lparr>ci_fullName = or_else (fullName usr) ''Unknown User'', ci_email = email usr,
         ci_phone = or_else (phone usr) unspecified,
         ci_address = or_else (address usr) unspecified,
         ci_governorate = or_else (governorate usr) unspecified\<rparr>
        [\<lparr>productId = prod_id pr, productName = prod_name pr,
          productImage = prod_image pr, quantity = \<bar>q\<bar>, price = price_or_zero pr,
          item_size = sz, itemTotal = price_or_zero pr * \<bar>q\<bar>, istatus = In_cart\<rparr>]
        (price_or_zero pr * \<bar>q\<bar>) pm None)
       \<lparr>oid := next_oid st, createdAt := Some now\<rparr>"

text \<open>The order item of a checkout for one cart entry (product key, size, quantity) of a
  product found in the catalog: checked out, at the product's current price.\<close>

definition line_item :: "product \<Rightarrow> int \<Rightarrow> string \<Rightarrow> int \<Rightarrow> order_item" where
  "line_item pr k sz q =
     \<lparr>productId = k, productName = prod_name pr, productImage = prod_image pr, quantity = q,
      price = price_or_zero pr, item_size = sz, itemTotal = price_or_zero pr * q,
      istatus = Checkedout\<rparr>"

text \<open>The items for the entries of one product: one for each entry with a positive
  quantity.\<close>

definition size_items :: "product \<Rightarrow> int \<Rightarrow> size_map \<Rightarrow> order_item list" where
  "size_items pr k sm = map (\<lambda>e. line_item pr k (fst e) (snd e)) (filter (\<lambda>e. snd e > 0) sm)"

text \<open>The items for a whole cart: the entries of a product that is not in the catalog
  contribute nothing.\<close>

fun cart_items :: "product list \<Rightarrow> cart \<Rightarrow> order_item list" where
  "cart_items prods [] = []"
| "cart_items prods ((k, sm) # rest) =
     (case find (\<lambda>p. prod_id p = k) prods of
        None \<Rightarrow> cart_items prods rest
      | Some pr \<Rightarrow> size_items pr k sm @ cart_items prods rest)"

text \<open>A checkout request that passes the handler's checks and the schema validation of
  the order it writes: the caller exists and has a cart, the address yields a non-empty
  string, phone and payment method are given and the method is a known one, the
  caller's e-mail address and the catalog's product names are not empty (both are
  required by their schemas), and a new order's identifier is not taken.\<close>

definition checkout_ready ::
  "nat \<Rightarrow> user \<Rightarrow> address_in \<Rightarrow> string \<Rightarrow> string \<Rightarrow> state \<Rightarrow> bool" where
  "checkout_ready uid usr addr phone_in pm st =
     (users st uid = Some usr \<and> cartData usr \<noteq> []
      \<and> address_field addr \<noteq> None \<and> address_field addr \<noteq> Some []
      \<and> phone_in \<noteq> [] \<and> pm \<in> set payment_methods
      \<and> email usr \<noteq> []
      \<and> list_all (\<lambda>p. prod_name p \<noteq> []) (products st)
      \<and> (find_pending uid (orders st) = None
           \<longrightarrow> Suc (length (orders st)) \<notin> set (map orderId (orders st))))"

text \<open>The order a successful checkout writes.\<close>

definition checkout_order ::
  "cal_date \<Rightarrow> nat \<Rightarrow> user \<Rightarrow> address_in \<Rightarrow> string \<Rightarrow> string \<Rightarrow> string option \<Rightarrow> state \<Rightarrow> order"
  where
  "checkout_order now uid usr addr phone_in pm txn st =
     (let its = cart_items (products st) (cartData usr);
          info = \<lparr>ci_fullName = or_else (fullName usr) ''Unknown User'', ci_email = email usr,
                  ci_phone = phone_in,
                  ci_address = (case address_field addr of Some a \<Rightarrow> a | None \<Rightarrow> []),
                  ci_governorate = governorate_field addr\<rparr>
      in case find_pending uid (orders st) of
           Some ord \<Rightarrow>
             ord\<lparr>items := its, total := sum_list (map itemTotal its), customerInfo := info,
                 paymentMethod := pm, paymentStatus := Pay_pending, transactionId := txn\<rparr>
         | None \<Rightarrow>
             (new_order (length (orders st) + 1) uid info its (sum_list (map itemTotal its)) pm txn)
               \<lparr>oid := next_oid st, createdAt := Some now\<rparr>)"

text \<open>The order in a handler's response, if it reports success.\<close>

definition response_order :: "(error + order) \<times> state \<Rightarrow> order option" where
  "response_order r = (case fst r of Inl e \<Rightarrow> None | Inr ord \<Rightarrow> Some ord)"

text \<open>The requests of the cart, checkout and admin routes and of the client functions, and
  the state after a request and after a sequence of requests (each at its own time).\<close>

datatype request =
    Add_to_cart nat int "int option" string string
  | Update_cart_quantity nat int "string option" "int option"
  | Clear_cart nat
  | Checkout nat address_in string string "string option"
  | Create_order nat "(string \<times> string \<times> string) option" string string
  | Set_order_status nat string string string string
  | Delete_order nat
  | Client_add nat int string string
  | Client_remove nat int string
  | Client_update nat int string int
  | Client_handle_update nat int string int

fun step :: "cal_date \<Rightarrow> request \<Rightarrow> state \<Rightarrow> state" where
  "step now (Add_to_cart uid k q sz pm) st = snd (addtocart now uid k q sz pm st)"
| "step now (Update_cart_quantity uid k sz q) st = snd (updatecartquantity now uid k sz q st)"
| "step now (Clear_cart uid) st = snd (clearcart now uid st)"
| "step now (Checkout uid addr ph pm txn) st = snd (checkout now uid addr ph pm txn st)"
| "step now (Create_order uid shipping pm n) st = snd (createorder now uid shipping pm n st)"
| "step now (Set_order_status k s n t r) st = snd (admin_order_status now k s n t r st)"
| "step now (Delete_order k) st = snd (admin_delete_order now k st)"
| "step now (Client_add uid k sz pm) st = snd (addToCart now uid k sz pm st)"
| "step now (Client_remove uid k sz) st = snd (removeFromCart now uid k sz st)"
| "step now (Client_update uid k sz n) st = snd (updateCartQuantity now uid k sz n st)"
| "step now (Client_handle_update uid k sz n) st = snd (handleUpdateQuantity now uid k sz n st)"

fun run :: "(cal_date \<times> request) list \<Rightarrow> state \<Rightarrow> state" where
  "run [] st = st"
| "run (e # rest) st = run rest (step (fst e) (snd e) st)"

text \<open>An admin request that sets an order's status to \<^verbatim>\<open>pending\<close>.\<close>

fun sets_pending :: "request \<Rightarrow> bool" where
  "sets_pending (Set_order_status k s n t r) = (s = ''pending'')"
| "sets_pending _ = False"

text \<open>The pending orders of a user.\<close>

definition pending_of :: "nat \<Rightarrow> state \<Rightarrow> order list" where
  "pending_of uid st = filter (\<lambda>ord. userId ord = uid \<and> status ord = Pending) (orders st)"

text \<open>No two pending orders belong to the same user.\<close>

definition pending_unique :: "state \<Rightarrow> bool" where
  "pending_unique st = distinct (map userId (filter (\<lambda>ord. status ord = Pending) (orders st)))"

text \<open>Document ids are unique and below the next one to be handed out.\<close>

definition oids_fresh :: "state \<Rightarrow> bool" where
  "oids_fresh st =
     (distinct (map oid (orders st)) \<and> list_all (\<lambda>ord. oid ord < next_oid st) (orders st))"

text \<open>The ways a request changes the order collection (with the next document id): not at
  all; by a new pending order, for a user who had none; by writing back a stored order
  with its id and user (under \<open>strict\<close>, without turning a non-pending order into a
  pending one); or by deleting the order with a given id.\<close>

definition evolve :: "bool \<Rightarrow> order list \<Rightarrow> nat \<Rightarrow> order list \<Rightarrow> nat \<Rightarrow> bool" where
  "evolve strict os n os' n' =
     ((os' = os \<and> n' = n)
      \<or> (\<exists>ord. os' = os @ [ord] \<and> n' = Suc n \<and> oid ord = n \<and> status ord = Pending
              \<and> find_pending (userId ord) os = None)
      \<or> (\<exists>old ord. old \<in> set os \<and> oid ord = oid old \<and> userId ord = userId old
              \<and> (strict \<longrightarrow> status ord = Pending \<longrightarrow> status old = Pending)
              \<and> os' = replace_order ord os \<and> n' = n)
      \<or> (\<exists>k. os' = filter (\<lambda>x. oid x \<noteq> k) os \<and> n' = n))"

text \<open>Stored cart quantities are positive.\<close>

definition sizes_positive :: "size_map \<Rightarrow> bool" where
  "sizes_positive sm = list_all (\<lambda>e. 0 < snd e) sm"




text \<open>The ways a request changes the user collection: not at all, or by storing a user
  whose cart is emptied or is the result of one cart update on the stored cart.\<close>

definition users_evolve :: "(nat \<rightharpoonup> user) \<Rightarrow> (nat \<rightharpoonup> user) \<Rightarrow> bool" where
  "users_evolve us us' =
     (us' = us
      \<or> (\<exists>uid usr usr'. us uid = Some usr \<and> us' = us(uid \<mapsto> usr')
            \<and> (cartData usr' = []
                 \<or> (\<exists>k sz q. cartData usr' = add_cart_line k sz q (cartData usr))
                 \<or> (\<exists>k sz n. cartData usr' = set_cart_line k sz n (cartData usr)))))"

section \<open>Concrete data for the scenarios\<close>

definition day1 :: cal_date where
  "day1 = \<lparr>year = 2024, month = 5, day = 1\<rparr>"

definition day2 :: cal_date where
  "day2 = \<lparr>year = 2024, month = 5, day = 2\<rparr>"

definition P1 :: product where
  "P1 = \<lparr>prod_id = 1, prod_name = ''Shirt'', prod_image = ''shirt.png'', new_price = 100,
         newprice = None, sizes = []\<rparr>"

definition P2 :: product where
  "P2 = \<lparr>prod_id = 2, prod_name = ''Hat'', prod_image = ''hat.png'', new_price = 50,
         newprice = None, sizes = []\<rparr>"

definition alice :: user where
  "alice = \<lparr>fullName = ''Alice'', email = ''alice@example.com'', phone = ''0100'',
            address = ''1 Nile St'', governorate = ''Cairo'', cartData = []\<rparr>"

text \<open>A shop with two products, one customer (user id 7) and no orders yet.\<close>

definition state0 :: state where
  "state0 = \<lparr>products = [P1, P2], users = [7 \<mapsto> alice], orders = [], revenues = [],
             next_oid = 0\<rparr>"

definition alice_info :: customer_info where
  "alice_info = \<lparr>ci_fullName = ''Alice'', ci_email = ''alice@example.com'', ci_phone = ''0100'',
                 ci_address = ''1 Nile St'', ci_governorate = ''Cairo''\<rparr>"

definition item_shirts :: "int \<Rightarrow> item_status \<Rightarrow> order_item" where
  "item_shirts n s =
     \<lparr>productId = 1, productName = ''Shirt'', productImage = ''shirt.png'', quantity = n,
      price = 100, item_size = ''M'', itemTotal = 100 * n, istatus = s\<rparr>"

text \<open>A stored order of three checked-out shirts, total 300, created on \<open>day1\<close>.\<close>

definition order300 :: order where
  "order300 =
     (new_order 1 7 alice_info [item_shirts 3 Checkedout] 300 ''cash_on_delivery'' None)
       \<lparr>oid := 0, status := Processing, createdAt := Some day1\<rparr>"

definition revenue300 :: revenue where
  "revenue300 = (zero_revenue day1)\<lparr>ordersCount := 1, pendingRevenue := 300,
                                     checkedoutRevenue := 300\<rparr>"

definition state300 :: state where
  "state300 = \<lparr>products = [P1, P2], users = [7 \<mapsto> alice], orders = [order300],
               revenues = [revenue300], next_oid = 1\<rparr>"

definition item_hats :: "int \<Rightarrow> item_status \<Rightarrow> order_item" where
  "item_hats n s =
     \<lparr>productId = 2, productName = ''Hat'', productImage = ''hat.png'', quantity = n,
      price = 50, item_size = ''L'', itemTotal = 50 * n, istatus = s\<rparr>"

text \<open>Scenario D: the customer's cart holds two shirts (M) and one hat (L), mirrored by the
  pending order created on \<open>day1\<close>.\<close>

definition order_D :: order where
  "order_D =
     (new_order 1 7 alice_info [item_shirts 2 In_cart, item_hats 1 In_cart] 250
        ''cash_on_delivery'' None)
       \<lparr>oid := 0, createdAt := Some day1\<rparr>"

definition state_D :: state where
  "state_D =
     \<lparr>products = [P1, P2],
      users = [7 \<mapsto> alice\<lparr>cartData := [(1, [(''M'', 2)]), (2, [(''L'', 1)])]\<rparr>],
      orders = [order_D],
      revenues = [(zero_revenue day1)\<lparr>ordersCount := 1, pendingRevenue := 450\<rparr>],
      next_oid = 1\<rparr>"

text \<open>A cart with an entry for product 9, which is not in the catalog (any more), and no
  order yet.\<close>

definition state_ghost :: state where
  "state_ghost =
     \<lparr>products = [P1, P2],
      users = [7 \<mapsto> alice\<lparr>cartData := [(1, [(''M'', 2)]), (9, [(''S'', 1)])]\<rparr>],
      orders = [], revenues = [], next_oid = 0\<rparr>"

definition home :: address_in where
  "home = Addr_object ''1 Nile St'' ''Cairo''"

text \<open>Scenario B: three shirts (M) in the cart, mirrored by the pending order.\<close>

definition order_B :: order where
  "order_B =
     (new_order 1 7 alice_info [item_shirts 3 In_cart] 300 ''cash_on_delivery'' None)
       \<lparr>oid := 0, createdAt := Some day1\<rparr>"

definition state_B :: state where
  "state_B =
     \<lparr>products = [P1, P2],
      users = [7 \<mapsto> alice\<lparr>cartData := [(1, [(''M'', 3)])]\<rparr>],
      orders = [order_B],
      revenues = [(zero_revenue day1)\<lparr>ordersCount := 1, pendingRevenue := 400\<rparr>],
      next_oid = 1\<rparr>"

text \<open>The customer adds a shirt, clears the cart, and adds a shirt again the next day.\<close>

definition requests_add_clear_add :: "(cal_date \<times> request) list" where
  "requests_add_clear_add =
     [(day1, Client_add 7 1 ''M'' ''cash''), (day1, Clear_cart 7),
      (day2, Client_add 7 1 ''M'' ''cash'')]"

text \<open>After that, an admin sets the status of the first (cancelled) order to \<^verbatim>\<open>pending\<close>.\<close>

definition requests_reopen :: "(cal_date \<times> request) list" where
  "requests_reopen = requests_add_clear_add @ [(day2, Set_order_status 0 ''pending'' [] [] [])]"

text \<open>Scenario A: one shirt (M) in the cart, mirrored by the pending order.\<close>

definition order_A :: order where
  "order_A =
     (new_order 1 7 alice_info [item_shirts 1 In_cart] 100 ''cash_on_delivery'' None)
       \<lparr>oid := 0, createdAt := Some day1\<rparr>"

definition state_A :: state where
  "state_A =
     \<lparr>products = [P1, P2],
      users = [7 \<mapsto> alice\<lparr>cartData := [(1, [(''M'', 1)])]\<rparr>],
      orders = [order_A],
      revenues = [(zero_revenue day1)\<lparr>ordersCount := 1, pendingRevenue := 100\<rparr>],
      next_oid = 1\<rparr>"

text \<open>The shirt after an admin has raised its price to 150 (\<^verbatim>\<open>/updateproduct\<close> writes both
  price fields), and scenario A with that catalog.\<close>

definition P1_repriced :: product where
  "P1_repriced = P1\<lparr>new_price := 150, newprice := Some 150\<rparr>"

definition state_A_repriced :: state where
  "state_A_repriced = state_A\<lparr>products := [P1_repriced, P2]\<rparr>"

section \<open>Properties of the revenue ledger\<close>

lemma foldl_add_itemTotal: "foldl (\<lambda>sum item. sum + itemTotal item) a its = a + sum_list (map itemTotal its)"
  by (induction its arbitrary: a) auto

lemma items_total_sum_list: "items_total its = sum_list (map itemTotal its)"
  by (simp add: items_total_def foldl_add_itemTotal)

lemma checkedout_total_sum: "checkedout_total (items ord) = checkedout_sum ord"
  by (simp add: checkedout_total_def checkedout_sum_def foldl_add_itemTotal)

lemma find_save_revenue_same:
  "find (\<lambda>x. date x = date r) (save_revenue r revs) = Some r"
  by (induction revs) auto

lemma find_save_revenue_other:
  "d \<noteq> date r \<Longrightarrow> find (\<lambda>x. date x = d) (save_revenue r revs) = find (\<lambda>x. date x = d) revs"
  by (induction revs) auto

lemma bucket_save_date: "date r = d \<Longrightarrow> bucket (save_revenue r revs) d = r"
  using find_save_revenue_same [of r revs] by (simp add: bucket_def)

lemma bucket_save_other: "d \<noteq> date r \<Longrightarrow> bucket (save_revenue r revs) d = bucket revs d"
  by (simp add: bucket_def find_save_revenue_other)

lemma date_bucket [simp]: "date (bucket revs d) = d"
proof (cases "find (\<lambda>r. date r = d) revs")
  case None
  then show ?thesis by (simp add: bucket_def zero_revenue_def)
next
  case (Some r)
  then have "date r = d" by (auto simp: find_Some_iff)
  with Some show ?thesis by (simp add: bucket_def)
qed

lemma save_bucket_unchanged:
  "save_revenue (bucket revs d) revs =
     (case find (\<lambda>r. date r = d) revs of Some r \<Rightarrow> revs | None \<Rightarrow> revs @ [zero_revenue d])"
proof (induction revs)
  case Nil
  show ?case by (simp add: bucket_def)
next
  case (Cons x xs)
  show ?case
  proof (cases "date x = d")
    case True
    then show ?thesis by (simp add: bucket_def)
  next
    case False
    then have "bucket (x # xs) d = bucket xs d" by (simp add: bucket_def)
    with False Cons show ?thesis by (simp split: option.splits)
  qed
qed

lemma updateRevenue_other_day:
  "d \<noteq> order_day now ord \<Longrightarrow> bucket (updateRevenue now ord action revs) d = bucket revs d"
  by (simp add: updateRevenue_def order_day_def Let_def bucket_save_other)

text \<open>What one \<^verbatim>\<open>update\<close> call does to the bucket of the order's day.\<close>

lemma updateRevenue_update_bucket:
  "bucket (updateRevenue now ord ''update'' revs) (order_day now ord) =
     (let b = bucket revs (order_day now ord) in
      b\<lparr>deliveredRevenue := deliveredRevenue b + (if status ord = Delivered then total ord else 0),
        dailyRevenue := dailyRevenue b + (if status ord = Delivered then total ord else 0),
        cancelledRevenue := cancelledRevenue b + (if status ord = Cancelled then total ord else 0),
        pendingRevenue := pendingRevenue b
           + (if status ord \<noteq> Delivered \<and> status ord \<noteq> Cancelled then total ord else 0),
        checkedoutRevenue := checkedoutRevenue b + checkedout_sum ord\<rparr>)"
  unfolding updateRevenue_def order_day_def [symmetric] Let_def
  by (simp add: bucket_save_date checkedout_total_sum)

text \<open>What one \<^verbatim>\<open>add\<close> call does to the bucket of the order's day.\<close>

lemma updateRevenue_add_bucket:
  "bucket (updateRevenue now ord ''add'' revs) (order_day now ord) =
     (let b = bucket revs (order_day now ord) in
      b\<lparr>ordersCount := ordersCount b + 1,
        deliveredRevenue := deliveredRevenue b + (if status ord = Delivered then total ord else 0),
        dailyRevenue := dailyRevenue b + (if status ord = Delivered then total ord else 0),
        cancelledRevenue := cancelledRevenue b + (if status ord = Cancelled then total ord else 0),
        pendingRevenue := pendingRevenue b
           + (if status ord \<noteq> Delivered \<and> status ord \<noteq> Cancelled then total ord else 0),
        checkedoutRevenue := checkedoutRevenue b + checkedout_sum ord\<rparr>)"
  unfolding updateRevenue_def order_day_def [symmetric] Let_def
  by (simp add: bucket_save_date checkedout_total_sum)

text \<open>An action other than \<^verbatim>\<open>add\<close> and \<^verbatim>\<open>update\<close> saves the bucket as it was found.\<close>

lemma updateRevenue_remove:
  "updateRevenue now ord ''remove'' revs =
     (case find (\<lambda>r. date r = order_day now ord) revs of
        Some r \<Rightarrow> revs
      | None \<Rightarrow> revs @ [zero_revenue (order_day now ord)])"
  unfolding updateRevenue_def order_day_def [symmetric] Let_def
  by (simp add: save_bucket_unchanged)

lemma updateRevenue_remove_bucket:
  "bucket (updateRevenue now ord ''remove'' revs) d = bucket revs d"
proof (cases "d = order_day now ord")
  case True
  have "bucket (save_revenue (bucket revs d) revs) d = bucket revs d"
    by (simp add: bucket_save_date)
  with True show ?thesis
    unfolding updateRevenue_def order_day_def [symmetric] Let_def by simp
next
  case False
  then show ?thesis by (rule updateRevenue_other_day)
qed

lemma status_bucket_cases:
  "status_bucket s r =
     (if s = Delivered then deliveredRevenue r
      else if s = Cancelled then cancelledRevenue r else pendingRevenue r)"
  by (cases s) simp_all

section \<open>Claims about the revenue ledger\<close>

text \<open>
  C3. \<^verbatim>\<open>updateRevenue(order, 'update')\<close> adds the order's total to the counter selected by
  the order's current status (\<open>deliveredRevenue\<close> and \<open>dailyRevenue\<close> for a delivered
  order, \<open>cancelledRevenue\<close> for a cancelled one, \<open>pendingRevenue\<close> otherwise) and the sum
  of the checked-out item totals to \<open>checkedoutRevenue\<close>, in the bucket of the order's
  creation day; nothing is subtracted, so a second call for the unchanged order brings
  the status counter to its old value plus twice the total.
\<close>

theorem updateRevenue_update_not_idempotent:
  "let d = order_day now ord;
       b = bucket revs d;
       once = updateRevenue now ord ''update'' revs;
       b1 = bucket once d;
       b2 = bucket (updateRevenue now ord ''update'' once) d
   in status_bucket (status ord) b1 = status_bucket (status ord) b + total ord
    \<and> deliveredRevenue b1 = deliveredRevenue b + (if status ord = Delivered then total ord else 0)
    \<and> dailyRevenue b1 = dailyRevenue b + (if status ord = Delivered then total ord else 0)
    \<and> cancelledRevenue b1 = cancelledRevenue b + (if status ord = Cancelled then total ord else 0)
    \<and> pendingRevenue b1 = pendingRevenue b
         + (if status ord \<noteq> Delivered \<and> status ord \<noteq> Cancelled then total ord else 0)
    \<and> checkedoutRevenue b1 = checkedoutRevenue b + checkedout_sum ord
    \<and> ordersCount b1 = ordersCount b
    \<and> status_bucket (status ord) b2 = status_bucket (status ord) b + 2 * total ord"
proof -
  let ?d = "order_day now ord"
  let ?once = "updateRevenue now ord ''update'' revs"
  note one = updateRevenue_update_bucket [of now ord revs]
  note two = updateRevenue_update_bucket [of now ord ?once]
  show ?thesis
    unfolding Let_def
    by (simp add: one two Let_def status_bucket_cases)
qed

theorem updateRevenue_update_not_idempotent_witness:
  "pendingRevenue (bucket (updateRevenue day2 order300 ''update'' [revenue300]) day1) = 600
   \<and> status_bucket (status order300)
        (bucket (updateRevenue day2 order300 ''update''
                   (updateRevenue day2 order300 ''update'' [revenue300])) day1) = 900"
  using updateRevenue_update_not_idempotent [of day2 order300 "[revenue300]"]
  by (simp add: Let_def order_day_def order300_def new_order_def bucket_def revenue300_def
        zero_revenue_def)

text \<open>
  C9. The admin delete-order route calls \<^verbatim>\<open>updateRevenue(order, 'remove')\<close>; that action
  matches neither the \<^verbatim>\<open>add\<close> nor the \<^verbatim>\<open>update\<close> branch, so the bucket of the order's
  creation day is saved as it was found: every counter of every day keeps its value
  (nothing the deleted order contributed is subtracted), and the only possible change to
  the collection is a new all-zero bucket for the order's creation day.
\<close>

theorem admin_delete_order_keeps_revenue:
  assumes "find (\<lambda>x. oid x = k) (orders st) = Some ord"
  shows "\<exists>st'. admin_delete_order now k st = (Inr (), st')
           \<and> orders st' = filter (\<lambda>x. oid x \<noteq> k) (orders st)
           \<and> (\<forall>d. bucket (revenues st') d = bucket (revenues st) d)
           \<and> revenues st' = updateRevenue now ord ''remove'' (revenues st)
           \<and> revenues st' =
               (case find (\<lambda>r. date r = order_day now ord) (revenues st) of
                  Some r \<Rightarrow> revenues st
                | None \<Rightarrow> revenues st @ [zero_revenue (order_day now ord)])"
  using assms
  by (simp add: admin_delete_order_def Let_def updateRevenue_remove_bucket
        updateRevenue_remove [symmetric])

theorem admin_delete_order_keeps_revenue_witness:
  "find (\<lambda>x. oid x = 0) (orders state300) = Some order300
   \<and> (\<exists>st'. admin_delete_order day2 0 state300 = (Inr (), st')
          \<and> orders st' = [] \<and> revenues st' = [revenue300])"
proof -
  have found: "find (\<lambda>x. oid x = 0) (orders state300) = Some order300"
    by (simp add: state300_def order300_def new_order_def)
  have day: "order_day day2 order300 = day1"
    by (simp add: order_day_def order300_def new_order_def)
  have "date revenue300 = day1"
    by (simp add: revenue300_def zero_revenue_def)
  with admin_delete_order_keeps_revenue [OF found, of day2] found day show ?thesis
    by (auto simp: state300_def order300_def new_order_def)
qed

section \<open>Delivery and the revenue report\<close>









lemma order_valid_status_update:
  "order_valid (ord\<lparr>status := s\<rparr>) = order_valid ord"
  "order_valid (ord\<lparr>order_notes := n\<rparr>) = order_valid ord"
  "order_valid (ord\<lparr>trackingNumber := t\<rparr>) = order_valid ord"
  "order_valid (ord\<lparr>deliveredAt := a\<rparr>) = order_valid ord"
  "order_valid (ord\<lparr>cancelledAt := a\<rparr>) = order_valid ord"
  "order_valid (ord\<lparr>paymentStatus := ps\<rparr>) = order_valid ord"
  "order_valid (ord\<lparr>cancellationReason := cr\<rparr>) = order_valid ord"
  "order_valid (ord\<lparr>total := tt\<rparr>) = order_valid ord"
  "order_valid (ord\<lparr>transactionId := tx\<rparr>) = order_valid ord"
  by (simp_all add: order_valid_def)

lemma apply_status_fields:
  "oid (apply_status now s n t r ord) = oid ord"
  "userId (apply_status now s n t r ord) = userId ord"
  "status (apply_status now s n t r ord) = s"
  "total (apply_status now s n t r ord) = total ord"
  "items (apply_status now s n t r ord) = items ord"
  "createdAt (apply_status now s n t r ord) = createdAt ord"
  "order_valid (apply_status now s n t r ord) = order_valid ord"
  by (simp_all add: apply_status_def Let_def order_valid_def)




section \<open>The first addition to the cart\<close>

lemma or_else_nonempty [simp]: "b \<noteq> [] \<Longrightarrow> or_else a b \<noteq> []"
  by (simp add: or_else_def)

lemma unspecified_nonempty [simp]: "unspecified \<noteq> []"
  by (simp add: unspecified_def)

lemma add_cart_line_empty: "0 < q \<Longrightarrow> add_cart_line k sz q [] = [(k, [(sz, q)])]"
  by (simp add: add_cart_line_def delete_key_def)

lemma createOrUpdateOrder_first:
  assumes "find_pending uid (orders st) = None" and "0 < q"
    and "email usr \<noteq> []" and "prod_name pr \<noteq> []"
    and "Suc (length (orders st)) \<notin> set (map orderId (orders st))"
  shows "createOrUpdateOrder now uid usr pr q sz ''cash'' ''add'' st =
           Some (st\<lparr>orders := orders st @ [first_order now uid usr pr q sz ''cash_on_delivery'' st],
                    next_oid := Suc (next_oid st),
                    revenues := updateRevenue now
                       (first_order now uid usr pr q sz ''cash_on_delivery'' st) ''add''
                       (revenues st)\<rparr>)"
  using assms
  by (simp add: createOrUpdateOrder_def insert_order_def Let_def first_order_def new_order_def
        order_valid_def payment_methods_def)

text \<open>
  C7. \<^verbatim>\<open>updateRevenue(order, 'add')\<close> increments \<open>ordersCount\<close> of the bucket of the
  order's creation day by one, adds the order's total to the one counter selected by the
  order's status (and to \<open>dailyRevenue\<close> as well for a delivered order) and adds the sum
  of the checked-out item totals to \<open>checkedoutRevenue\<close>. In particular, when a user
  with an empty cart and no pending order adds one unit of a product whose price is 100,
  a pending order with one item, item total 100 and total 100 is created, and the bucket
  of the current day gains one order and 100 of pending revenue.
\<close>

theorem updateRevenue_add_and_first_addToCart:
  "(let d = order_day now ord;
        b = bucket revs d;
        b1 = bucket (updateRevenue now ord ''add'' revs) d
    in ordersCount b1 = ordersCount b + 1
     \<and> status_bucket (status ord) b1 = status_bucket (status ord) b + total ord
     \<and> deliveredRevenue b1 = deliveredRevenue b + (if status ord = Delivered then total ord else 0)
     \<and> dailyRevenue b1 = dailyRevenue b + (if status ord = Delivered then total ord else 0)
     \<and> cancelledRevenue b1 = cancelledRevenue b + (if status ord = Cancelled then total ord else 0)
     \<and> pendingRevenue b1 = pendingRevenue b
          + (if status ord \<noteq> Delivered \<and> status ord \<noteq> Cancelled then total ord else 0)
     \<and> checkedoutRevenue b1 = checkedoutRevenue b + checkedout_sum ord)
   \<and> (users st uid = Some usr \<and> cartData usr = [] \<and> email usr \<noteq> []
        \<and> find (\<lambda>p. prod_id p = k) (products st) = Some pr \<and> k \<noteq> 0
        \<and> price_or_zero pr = 100 \<and> prod_name pr \<noteq> []
        \<and> sz \<in> set (if sizes pr \<noteq> [] then sizes pr else default_sizes)
        \<and> sz \<noteq> [] \<and> sz \<noteq> ''default''
        \<and> find_pending uid (orders st) = None
        \<and> Suc (length (orders st)) \<notin> set (map orderId (orders st))
      \<longrightarrow> (\<exists>st' new. addToCart now uid k sz ''cash'' st = (Server_ok [(k, [(sz, 1)])], st')
             \<and> client_cart st' uid = [(k, [(sz, 1)])]
             \<and> orders st' = orders st @ [new]
             \<and> userId new = uid \<and> status new = Pending
             \<and> map productId (items new) = [k] \<and> map quantity (items new) = [1]
             \<and> map itemTotal (items new) = [100] \<and> total new = 100
             \<and> ordersCount (bucket (revenues st') now) = ordersCount (bucket (revenues st) now) + 1
             \<and> pendingRevenue (bucket (revenues st') now)
                 = pendingRevenue (bucket (revenues st) now) + 100))"
proof (intro conjI impI)
  show "let d = order_day now ord;
        b = bucket revs d;
        b1 = bucket (updateRevenue now ord ''add'' revs) d
    in ordersCount b1 = ordersCount b + 1
     \<and> status_bucket (status ord) b1 = status_bucket (status ord) b + total ord
     \<and> deliveredRevenue b1 = deliveredRevenue b + (if status ord = Delivered then total ord else 0)
     \<and> dailyRevenue b1 = dailyRevenue b + (if status ord = Delivered then total ord else 0)
     \<and> cancelledRevenue b1 = cancelledRevenue b + (if status ord = Cancelled then total ord else 0)
     \<and> pendingRevenue b1 = pendingRevenue b
          + (if status ord \<noteq> Delivered \<and> status ord \<noteq> Cancelled then total ord else 0)
     \<and> checkedoutRevenue b1 = checkedoutRevenue b + checkedout_sum ord"
    unfolding Let_def
    by (simp add: updateRevenue_add_bucket [of now ord revs] Let_def status_bucket_cases)
next
  assume a: "users st uid = Some usr \<and> cartData usr = [] \<and> email usr \<noteq> []
        \<and> find (\<lambda>p. prod_id p = k) (products st) = Some pr \<and> k \<noteq> 0
        \<and> price_or_zero pr = 100 \<and> prod_name pr \<noteq> []
        \<and> sz \<in> set (if sizes pr \<noteq> [] then sizes pr else default_sizes)
        \<and> sz \<noteq> [] \<and> sz \<noteq> ''default''
        \<and> find_pending uid (orders st) = None
        \<and> Suc (length (orders st)) \<notin> set (map orderId (orders st))"
  from a have pk: "prod_id pr = k" by (auto simp: find_Some_iff)
  define usr2 where
    "usr2 = usr\<lparr>cartData := [(k, [(sz, 1)])], fullName := or_else (fullName usr) ''Unknown User''\<rparr>"
  define st1 where "st1 = st\<lparr>users := (users st)(uid \<mapsto> usr2)\<rparr>"
  define new where "new = first_order now uid usr2 pr 1 sz ''cash_on_delivery'' st1"
  define st2 where
    "st2 = st1\<lparr>orders := orders st1 @ [new], next_oid := Suc (next_oid st1),
               revenues := updateRevenue now new ''add'' (revenues st1)\<rparr>"
  have reconcile: "createOrUpdateOrder now uid usr2 pr 1 sz ''cash'' ''add'' st1 = Some st2"
    unfolding st2_def new_def
    by (rule createOrUpdateOrder_first) (use a in \<open>simp_all add: st1_def usr2_def\<close>)
  have route: "addtocart now uid k (Some 1) sz ''cash'' st = (Inr [(k, [(sz, 1)])], st2)"
  proof -
    from a have "or_else sz ''default'' = sz" by (simp add: or_else_def)
    moreover have "or_else ''cash'' ''cash_on_delivery'' = ''cash''" by (simp add: or_else_def)
    ultimately show ?thesis
      using a pk reconcile [unfolded st1_def usr2_def]
      by (simp add: addtocart_def Let_def add_cart_line_empty st1_def usr2_def)
  qed
  have client: "addToCart now uid k sz ''cash'' st = (Server_ok [(k, [(sz, 1)])], st2)"
    using a pk route by (simp add: addToCart_def server_reply_def or_else_def)
  have day: "order_day now new = now"
    by (simp add: new_def first_order_def order_day_def)
  have fields: "userId new = uid" "status new = Pending" "map productId (items new) = [k]"
      "map quantity (items new) = [1]" "map itemTotal (items new) = [100]" "total new = 100"
    using a pk by (simp_all add: new_def first_order_def new_order_def)
  have b: "bucket (revenues st2) now =
      (let b = bucket (revenues st) now in
       b\<lparr>ordersCount := ordersCount b + 1,
         deliveredRevenue := deliveredRevenue b + 0,
         dailyRevenue := dailyRevenue b + 0,
         cancelledRevenue := cancelledRevenue b + 0,
         pendingRevenue := pendingRevenue b + 100,
         checkedoutRevenue := checkedoutRevenue b + checkedout_sum new\<rparr>)"
    using updateRevenue_add_bucket [of now new "revenues st"] fields
    unfolding day by (simp add: st2_def st1_def)
  have "client_cart st2 uid = [(k, [(sz, 1)])]"
    by (simp add: client_cart_def st2_def st1_def usr2_def)
  moreover have "orders st2 = orders st @ [new]"
    by (simp add: st2_def st1_def)
  ultimately
  show "\<exists>st' new. addToCart now uid k sz ''cash'' st = (Server_ok [(k, [(sz, 1)])], st')
             \<and> client_cart st' uid = [(k, [(sz, 1)])]
             \<and> orders st' = orders st @ [new]
             \<and> userId new = uid \<and> status new = Pending
             \<and> map productId (items new) = [k] \<and> map quantity (items new) = [1]
             \<and> map itemTotal (items new) = [100] \<and> total new = 100
             \<and> ordersCount (bucket (revenues st') now) = ordersCount (bucket (revenues st) now) + 1
             \<and> pendingRevenue (bucket (revenues st') now)
                 = pendingRevenue (bucket (revenues st) now) + 100"
    using client fields by (simp add: b Let_def)
qed

lemma state0_first_add:
  "users state0 7 = Some alice \<and> cartData alice = [] \<and> email alice \<noteq> []
     \<and> find (\<lambda>p. prod_id p = 1) (products state0) = Some P1 \<and> (1::int) \<noteq> 0
     \<and> price_or_zero P1 = 100 \<and> prod_name P1 \<noteq> []
     \<and> ''M'' \<in> set (if sizes P1 \<noteq> [] then sizes P1 else default_sizes)
     \<and> ''M'' \<noteq> [] \<and> ''M'' \<noteq> ''default''
     \<and> find_pending 7 (orders state0) = None
     \<and> Suc (length (orders state0)) \<notin> set (map orderId (orders state0))"
  by (simp add: state0_def alice_def P1_def P2_def price_or_zero_def default_sizes_def
        find_pending_def)

theorem updateRevenue_add_and_first_addToCart_witness:
  "\<exists>st' new. addToCart day1 7 1 ''M'' ''cash'' state0 = (Server_ok [(1, [(''M'', 1)])], st')
      \<and> orders st' = [new] \<and> status new = Pending \<and> total new = 100
      \<and> map itemTotal (items new) = [100]
      \<and> ordersCount (bucket (revenues st') day1) = 1
      \<and> pendingRevenue (bucket (revenues st') day1) = 100"
proof -
  have zero: "bucket (revenues state0) day1 = zero_revenue day1"
    by (simp add: state0_def bucket_def)
  have "orders state0 = []" by (simp add: state0_def)
  with updateRevenue_add_and_first_addToCart
         [of day1 order300 "[]" state0 7 alice 1 P1 "''M''"]
       state0_first_add
  show ?thesis
    by (auto simp: zero zero_revenue_def)
qed

section \<open>Checkout\<close>

lemma checkout_sizes_eq:
  "checkout_sizes pr k sm (its, tot) =
     (its @ size_items pr k sm, tot + sum_list (map itemTotal (size_items pr k sm)))"
  by (induction sm arbitrary: its tot) (auto simp: size_items_def line_item_def Let_def)

lemma checkout_products_eq:
  "checkout_products prods c (its, tot) =
     (its @ cart_items prods c, tot + sum_list (map itemTotal (cart_items prods c)))"
  by (induction c arbitrary: its tot) (auto simp: checkout_sizes_eq split: option.splits)

lemma size_items_member:
  "i \<in> set (size_items pr k sm) \<longleftrightarrow> (\<exists>sz q. (sz, q) \<in> set sm \<and> 0 < q \<and> i = line_item pr k sz q)"
  by (auto simp: size_items_def image_iff)

lemma set_cart_items:
  "set (cart_items prods c) =
     (\<Union>e \<in> set c. case find (\<lambda>p. prod_id p = fst e) prods of
                       None \<Rightarrow> {}
                     | Some pr \<Rightarrow> set (size_items pr (fst e) (snd e)))"
  by (induction c) (auto split: option.splits)

lemma cart_items_member:
  "i \<in> set (cart_items prods c) \<longleftrightarrow>
     (\<exists>k sm pr sz q. (k, sm) \<in> set c \<and> find (\<lambda>p. prod_id p = k) prods = Some pr
         \<and> (sz, q) \<in> set sm \<and> 0 < q \<and> i = line_item pr k sz q)"
proof
  assume "i \<in> set (cart_items prods c)"
  then obtain e where e: "e \<in> set c"
    and i: "i \<in> (case find (\<lambda>p. prod_id p = fst e) prods of
                  None \<Rightarrow> {} | Some pr \<Rightarrow> set (size_items pr (fst e) (snd e)))"
    unfolding set_cart_items by blast
  from i obtain pr where pr: "find (\<lambda>p. prod_id p = fst e) prods = Some pr"
    and "i \<in> set (size_items pr (fst e) (snd e))"
    by (cases "find (\<lambda>p. prod_id p = fst e) prods") auto
  then obtain sz q where "(sz, q) \<in> set (snd e)" "0 < q" "i = line_item pr (fst e) sz q"
    unfolding size_items_member by blast
  with e pr show "\<exists>k sm pr sz q. (k, sm) \<in> set c \<and> find (\<lambda>p. prod_id p = k) prods = Some pr
         \<and> (sz, q) \<in> set sm \<and> 0 < q \<and> i = line_item pr k sz q"
    by (intro exI [of _ "fst e"] exI [of _ "snd e"] exI [of _ pr] exI [of _ sz] exI [of _ q]) simp
next
  assume "\<exists>k sm pr sz q. (k, sm) \<in> set c \<and> find (\<lambda>p. prod_id p = k) prods = Some pr
         \<and> (sz, q) \<in> set sm \<and> 0 < q \<and> i = line_item pr k sz q"
  then obtain k sm pr sz q where h: "(k, sm) \<in> set c" "find (\<lambda>p. prod_id p = k) prods = Some pr"
      "(sz, q) \<in> set sm" "0 < q" "i = line_item pr k sz q"
    by blast
  then have "i \<in> set (size_items pr k sm)" unfolding size_items_member by blast
  with h(1,2) show "i \<in> set (cart_items prods c)"
    unfolding set_cart_items by force
qed

lemma cart_items_all_checkedout:
  "filter (\<lambda>item. istatus item = Checkedout) (cart_items prods c) = cart_items prods c"
  by (rule filter_True) (auto simp: cart_items_member line_item_def)

lemma checkout_success:
  assumes "checkout_ready uid usr addr phone_in pm st"
  shows "checkout now uid addr phone_in pm txn st =
           (Inr (checkout_order now uid usr addr phone_in pm txn st),
            (case find_pending uid (orders st) of
               Some ord \<Rightarrow>
                 st\<lparr>users := (users st)(uid \<mapsto> usr\<lparr>cartData := []\<rparr>),
                    orders := replace_order (checkout_order now uid usr addr phone_in pm txn st)
                                (orders st),
                    revenues := updateRevenue now
                                  (checkout_order now uid usr addr phone_in pm txn st) ''update''
                                  (revenues st)\<rparr>
             | None \<Rightarrow>
                 st\<lparr>users := (users st)(uid \<mapsto> usr\<lparr>cartData := []\<rparr>),
                    orders := orders st @ [checkout_order now uid usr addr phone_in pm txn st],
                    next_oid := Suc (next_oid st),
                    revenues := updateRevenue now
                                  (checkout_order now uid usr addr phone_in pm txn st) ''add''
                                  (revenues st)\<rparr>))"
proof -
  from assms obtain a where a: "address_field addr = Some a" "a \<noteq> []"
    by (auto simp: checkout_ready_def)
  then have miss: "\<not> address_missing addr" by (cases addr) auto
  have gov: "governorate_field addr \<noteq> []" by (cases addr) simp_all
  from assms have names: "list_all (\<lambda>item. productName item \<noteq> [])
                            (cart_items (products st) (cartData usr))"
    by (auto simp: checkout_ready_def list_all_iff cart_items_member line_item_def
          find_Some_iff)
  from assms have pm: "pm \<noteq> []" "pm \<in> set payment_methods"
    by (auto simp: checkout_ready_def payment_methods_def)
  show ?thesis
  proof (cases "find_pending uid (orders st)")
    case None
    with assms a miss gov names pm show ?thesis
      by (simp add: checkout_def checkout_ready_def checkout_products_eq Let_def
            insert_order_def order_valid_def checkout_order_def new_order_def)
  next
    case (Some ord)
    with assms a miss gov names pm show ?thesis
      by (simp add: checkout_def checkout_ready_def checkout_products_eq Let_def
            save_order_def order_valid_def checkout_order_def)
  qed
qed

lemma checkout_order_fields:
  "items (checkout_order now uid usr addr phone_in pm txn st) =
     cart_items (products st) (cartData usr)"
  "total (checkout_order now uid usr addr phone_in pm txn st) =
     sum_list (map itemTotal (cart_items (products st) (cartData usr)))"
  by (simp_all add: checkout_order_def Let_def new_order_def split: option.splits)

lemma checkout_order_checkedout_sum:
  "checkedout_sum (checkout_order now uid usr addr phone_in pm txn st) =
     sum_list (map itemTotal (cart_items (products st) (cartData usr)))"
  by (simp add: checkedout_sum_def checkout_order_fields cart_items_all_checkedout)

lemma replace_order_member:
  "x \<in> set xs \<Longrightarrow> oid x = oid ord \<Longrightarrow> ord \<in> set (replace_order ord xs)"
  by (induction xs) auto

lemma find_pending_SomeD:
  "find_pending uid ords = Some ord \<Longrightarrow> ord \<in> set ords \<and> userId ord = uid \<and> status ord = Pending"
  by (auto simp: find_pending_def find_Some_iff)

lemma state_D_reached:
  "snd (addtocart day1 7 2 (Some 1) ''L'' ''cash''
          (snd (addtocart day1 7 1 (Some 2) ''M'' ''cash'' state0))) = state_D"
  by (simp add: addtocart_def createOrUpdateOrder_def insert_order_def save_order_def
        state0_def state_D_def order_D_def P1_def P2_def alice_def alice_info_def
        item_shirts_def item_hats_def new_order_def order_valid_def payment_methods_def
        or_else_def default_sizes_def add_cart_line_def delete_key_def find_pending_def
        price_or_zero_def merge_item_def items_total_def cancel_if_empty_def
        updateRevenue_def bucket_def zero_revenue_def checkedout_total_def Let_def)

lemma checkout_result:
  assumes "checkout_ready uid usr addr phone_in pm st"
  shows "\<exists>st'. checkout now uid addr phone_in pm txn st =
                 (Inr (checkout_order now uid usr addr phone_in pm txn st), st')
           \<and> client_cart st' uid = []
           \<and> checkout_order now uid usr addr phone_in pm txn st \<in> set (orders st')
           \<and> (\<exists>action. revenues st' =
                 updateRevenue now (checkout_order now uid usr addr phone_in pm txn st) action
                   (revenues st) \<and> (action = ''add'' \<or> action = ''update''))"
proof (cases "find_pending uid (orders st)")
  case None
  with checkout_success [OF assms, of now txn] show ?thesis
    by (auto simp: client_cart_def)
next
  case (Some ord)
  then have "ord \<in> set (orders st)" by (auto dest: find_pending_SomeD)
  moreover have "oid ord = oid (checkout_order now uid usr addr phone_in pm txn st)"
    using Some by (simp add: checkout_order_def Let_def)
  ultimately have "checkout_order now uid usr addr phone_in pm txn st
      \<in> set (replace_order (checkout_order now uid usr addr phone_in pm txn st) (orders st))"
    by (rule replace_order_member)
  with Some checkout_success [OF assms, of now txn] show ?thesis
    by (auto simp: client_cart_def)
qed

lemma checkout_empties_cart_first:
  assumes "users st uid = Some usr" and "cartData usr \<noteq> []" and "\<not> address_missing addr"
    and "phone_in \<noteq> []" and "pm \<in> set payment_methods"
  shows "client_cart (snd (checkout now uid addr phone_in pm txn st)) uid = []"
proof -
  from assms(5) have pm: "pm \<noteq> []" by (auto simp: payment_methods_def)
  obtain its tot where loop:
    "checkout_products (products st) (cartData usr) ([], 0) = (its, tot)"
    by (cases "checkout_products (products st) (cartData usr) ([], 0)")
  show ?thesis
    using assms pm loop
    by (auto simp: checkout_def Let_def client_cart_def save_order_def insert_order_def
          split: option.splits if_splits)
qed

text \<open>
  C10. During checkout a cart entry whose product id has no product in the catalog is
  passed over without an error. The cart is emptied and saved before the order is
  written (it is empty afterwards even when the order cannot be written), so such an
  entry is in neither the cart nor the order: the order's items are exactly the items of
  the entries with a known product, and the checkout reports success.
\<close>

theorem checkout_skips_unknown_products:
  "(checkout_ready uid usr addr phone_in pm st \<longrightarrow>
      (\<exists>ord st'. checkout now uid addr phone_in pm txn st = (Inr ord, st')
          \<and> ord \<in> set (orders st')
          \<and> items ord = cart_items (products st) (cartData usr)
          \<and> (\<forall>k. find (\<lambda>p. prod_id p = k) (products st) = None
                 \<longrightarrow> k \<notin> productId ` set (items ord))
          \<and> client_cart st' uid = []))
   \<and> (users st uid = Some usr \<and> cartData usr \<noteq> [] \<and> \<not> address_missing addr
        \<and> phone_in \<noteq> [] \<and> pm \<in> set payment_methods
      \<longrightarrow> client_cart (snd (checkout now uid addr phone_in pm txn st)) uid = [])"
proof (intro conjI impI)
  assume ready: "checkout_ready uid usr addr phone_in pm st"
  let ?ord = "checkout_order now uid usr addr phone_in pm txn st"
  from checkout_result [OF ready, of now txn] obtain st' where
    run: "checkout now uid addr phone_in pm txn st = (Inr ?ord, st')"
    and cart: "client_cart st' uid = []" and mem: "?ord \<in> set (orders st')"
    by blast
  have its: "items ?ord = cart_items (products st) (cartData usr)"
    by (rule checkout_order_fields)
  have "k \<notin> productId ` set (items ?ord)"
    if "find (\<lambda>p. prod_id p = k) (products st) = None" for k
    using that unfolding its by (auto simp: cart_items_member line_item_def)
  with run cart mem its
  show "\<exists>ord st'. checkout now uid addr phone_in pm txn st = (Inr ord, st')
          \<and> ord \<in> set (orders st')
          \<and> items ord = cart_items (products st) (cartData usr)
          \<and> (\<forall>k. find (\<lambda>p. prod_id p = k) (products st) = None
                 \<longrightarrow> k \<notin> productId ` set (items ord))
          \<and> client_cart st' uid = []"
    by blast
next
  assume "users st uid = Some usr \<and> cartData usr \<noteq> [] \<and> \<not> address_missing addr
        \<and> phone_in \<noteq> [] \<and> pm \<in> set payment_methods"
  then have "users st uid = Some usr" "cartData usr \<noteq> []" "\<not> address_missing addr"
      "phone_in \<noteq> []" "pm \<in> set payment_methods"
    by simp_all
  then show "client_cart (snd (checkout now uid addr phone_in pm txn st)) uid = []"
    by (rule checkout_empties_cart_first)
qed

lemma state_ghost_ready:
  "checkout_ready 7 (alice\<lparr>cartData := [(1, [(''M'', 2)]), (9, [(''S'', 1)])]\<rparr>) home ''0100''
     ''cash_on_delivery'' state_ghost"
  by (simp add: checkout_ready_def state_ghost_def alice_def home_def payment_methods_def
        P1_def P2_def find_pending_def)

lemma state_ghost_items:
  "cart_items (products state_ghost) [(1, [(''M'', 2)]), (9, [(''S'', 1)])]
     = [item_shirts 2 Checkedout]"
  by (simp add: state_ghost_def P1_def P2_def size_items_def line_item_def item_shirts_def
        price_or_zero_def)

theorem checkout_skips_unknown_products_witness:
  "cart_quantity (client_cart state_ghost 7) 9 ''S'' = 1
   \<and> find (\<lambda>p. prod_id p = 9) (products state_ghost) = None
   \<and> (\<exists>ord st'. checkout day1 7 home ''0100'' ''cash_on_delivery'' None state_ghost = (Inr ord, st')
          \<and> ord \<in> set (orders st')
          \<and> map productId (items ord) = [1]
          \<and> client_cart st' 7 = [])"
proof -
  have "cart_quantity (client_cart state_ghost 7) 9 ''S'' = 1"
    by (simp add: state_ghost_def client_cart_def cart_quantity_def)
  moreover have "find (\<lambda>p. prod_id p = 9) (products state_ghost) = None"
    by (simp add: state_ghost_def P1_def P2_def)
  moreover have "\<exists>ord st'. checkout day1 7 home ''0100'' ''cash_on_delivery'' None state_ghost = (Inr ord, st')
          \<and> ord \<in> set (orders st')
          \<and> map productId (items ord) = [1]
          \<and> client_cart st' 7 = []"
  proof -
    let ?usr = "alice\<lparr>cartData := [(1, [(''M'', 2)]), (9, [(''S'', 1)])]\<rparr>"
    from checkout_skips_unknown_products
           [of 7 ?usr home "''0100''" "''cash_on_delivery''" state_ghost day1 None]
         state_ghost_ready
    obtain ord st' where
      run: "checkout day1 7 home ''0100'' ''cash_on_delivery'' None state_ghost = (Inr ord, st')"
      and mem: "ord \<in> set (orders st')"
      and its: "items ord = cart_items (products state_ghost) (cartData ?usr)"
      and cart: "client_cart st' 7 = []"
      by blast
    have "cartData ?usr = [(1, [(''M'', 2)]), (9, [(''S'', 1)])]" by simp
    with its have "items ord = [item_shirts 2 Checkedout]"
      by (simp only: state_ghost_items)
    then have "map productId (items ord) = [1]" by (simp add: item_shirts_def)
    with run mem cart show ?thesis
      by (intro exI [of _ ord] exI [of _ st'] conjI)
  qed
  ultimately show ?thesis by blast
qed

lemma checkout_general:
  assumes ready: "checkout_ready uid usr addr phone_in pm st"
  shows "\<exists>ord st'. checkout now uid addr phone_in pm txn st = (Inr ord, st')
        \<and> items ord = cart_items (products st) (cartData usr)
        \<and> (\<forall>k sm sz q pr. (k, sm) \<in> set (cartData usr) \<and> (sz, q) \<in> set sm \<and> 0 < q
              \<and> find (\<lambda>p. prod_id p = k) (products st) = Some pr
              \<longrightarrow> line_item pr k sz q \<in> set (items ord))
        \<and> (\<forall>i \<in> set (items ord). istatus i = Checkedout \<and> itemTotal i = price i * quantity i)
        \<and> total ord = sum_list (map itemTotal (items ord))
        \<and> client_cart st' uid = []
        \<and> order_day now ord =
             (case find_pending uid (orders st) of
                Some old \<Rightarrow> order_day now old | None \<Rightarrow> now)
        \<and> checkedoutRevenue (bucket (revenues st') (order_day now ord))
            = checkedoutRevenue (bucket (revenues st) (order_day now ord))
              + sum_list (map itemTotal (items ord))
        \<and> (\<forall>d. d \<noteq> order_day now ord
              \<longrightarrow> bucket (revenues st') d = bucket (revenues st) d)"
proof -
  let ?ord = "checkout_order now uid usr addr phone_in pm txn st"
  from checkout_result [OF ready, of now txn] obtain st' action where
    run: "checkout now uid addr phone_in pm txn st = (Inr ?ord, st')"
    and cart: "client_cart st' uid = []"
    and revs: "revenues st' = updateRevenue now ?ord action (revenues st)"
    and action: "action = ''add'' \<or> action = ''update''"
    by blast
  have its: "items ?ord = cart_items (products st) (cartData usr)"
    and tot: "total ?ord = sum_list (map itemTotal (items ?ord))"
    by (simp_all add: checkout_order_fields)
  have complete: "\<forall>k sm sz q pr. (k, sm) \<in> set (cartData usr) \<and> (sz, q) \<in> set sm \<and> 0 < q
              \<and> find (\<lambda>p. prod_id p = k) (products st) = Some pr
              \<longrightarrow> line_item pr k sz q \<in> set (items ?ord)"
    unfolding its cart_items_member by blast
  have sound: "\<forall>i \<in> set (items ?ord). istatus i = Checkedout \<and> itemTotal i = price i * quantity i"
    unfolding its by (auto simp: cart_items_member line_item_def)
  have day: "order_day now ?ord =
             (case find_pending uid (orders st) of
                Some old \<Rightarrow> order_day now old | None \<Rightarrow> now)"
    by (simp add: checkout_order_def order_day_def Let_def new_order_def split: option.splits)
  have sum: "checkedout_sum ?ord = sum_list (map itemTotal (items ?ord))"
    by (simp add: checkout_order_checkedout_sum its)
  have rev: "checkedoutRevenue (bucket (revenues st') (order_day now ?ord))
            = checkedoutRevenue (bucket (revenues st) (order_day now ?ord))
              + sum_list (map itemTotal (items ?ord))"
    using action
    by (auto simp: revs updateRevenue_add_bucket updateRevenue_update_bucket Let_def sum)
  have other: "\<forall>d. d \<noteq> order_day now ?ord \<longrightarrow> bucket (revenues st') d = bucket (revenues st) d"
    by (simp add: revs updateRevenue_other_day)
  from run its complete sound tot cart day rev other show ?thesis
    by (intro exI [of _ ?ord] exI [of _ st'] conjI)
qed

lemma state_D_ready:
  "checkout_ready 7 (alice\<lparr>cartData := [(1, [(''M'', 2)]), (2, [(''L'', 1)])]\<rparr>) home ''0100''
     ''cash_on_delivery'' state_D"
  by (simp add: checkout_ready_def state_D_def alice_def home_def payment_methods_def
        P1_def P2_def find_pending_def order_D_def new_order_def)

lemma state_D_items:
  "cart_items (products state_D) [(1, [(''M'', 2)]), (2, [(''L'', 1)])]
     = [item_shirts 2 Checkedout, item_hats 1 Checkedout]"
  by (simp add: state_D_def P1_def P2_def size_items_def line_item_def item_shirts_def
        item_hats_def price_or_zero_def)

lemma state_D_pending:
  "find_pending 7 (orders state_D) = Some order_D" "order_day now order_D = day1"
  "total order_D = 250" "bucket (revenues state_D) day2 = zero_revenue day2"
  "checkedoutRevenue (bucket (revenues state_D) day1) = 0"
  by (simp_all add: state_D_def find_pending_def order_D_def new_order_def order_day_def
        bucket_def zero_revenue_def day1_def day2_def)

text \<open>Scenario D, with the checkout on the day \<open>now\<close>.\<close>

lemma checkout_state_D:
  "\<exists>ord st'. checkout now 7 home ''0100'' ''cash_on_delivery'' None state_D = (Inr ord, st')
      \<and> items ord = [item_shirts 2 Checkedout, item_hats 1 Checkedout]
      \<and> total ord = 250 \<and> client_cart st' 7 = []
      \<and> checkedoutRevenue (bucket (revenues st') day1) = 250
      \<and> (\<forall>d. d \<noteq> day1 \<longrightarrow> bucket (revenues st') d = bucket (revenues state_D) d)"
proof -
  let ?usr = "alice\<lparr>cartData := [(1, [(''M'', 2)]), (2, [(''L'', 1)])]\<rparr>"
  from checkout_general [OF state_D_ready, of now None] obtain ord st' where
    run: "checkout now 7 home ''0100'' ''cash_on_delivery'' None state_D = (Inr ord, st')"
    and its: "items ord = cart_items (products state_D) (cartData ?usr)"
    and tot: "total ord = sum_list (map itemTotal (items ord))"
    and cart: "client_cart st' 7 = []"
    and day: "order_day now ord =
        (case find_pending 7 (orders state_D) of Some old \<Rightarrow> order_day now old | None \<Rightarrow> now)"
    and rev: "checkedoutRevenue (bucket (revenues st') (order_day now ord))
            = checkedoutRevenue (bucket (revenues state_D) (order_day now ord))
              + sum_list (map itemTotal (items ord))"
    and other: "\<forall>d. d \<noteq> order_day now ord
                  \<longrightarrow> bucket (revenues st') d = bucket (revenues state_D) d"
    by blast
  have "cartData ?usr = [(1, [(''M'', 2)]), (2, [(''L'', 1)])]" by simp
  with its have its': "items ord = [item_shirts 2 Checkedout, item_hats 1 Checkedout]"
    by (simp only: state_D_items)
  then have sum: "sum_list (map itemTotal (items ord)) = 250"
    by (simp add: item_shirts_def item_hats_def)
  from day have day': "order_day now ord = day1" by (simp add: state_D_pending)
  from run its' tot sum cart rev other show ?thesis
    unfolding day' by (intro exI [of _ ord] exI [of _ st'] conjI) (simp_all add: state_D_pending)
qed

text \<open>What a checkout that reports success has done, what makes a checkout report
  success, and what a checkout that passed the checks and fails has done.\<close>

lemma checkout_Inr:
  assumes usr: "users st uid = Some usr"
    and run: "checkout now uid addr phone_in pm txn st = (Inr ord, st')"
  shows "cartData usr \<noteq> []
    \<and> ord = checkout_order now uid usr addr phone_in pm txn st
    \<and> client_cart st' uid = []
    \<and> ord \<in> set (orders st')
    \<and> (\<exists>action. revenues st' = updateRevenue now ord action (revenues st)
            \<and> (action = ''add'' \<or> action = ''update''))"
proof -
  from usr run have ne: "cartData usr \<noteq> []"
    by (auto simp: checkout_def split: if_splits)
  from usr run obtain a where a: "address_field addr = Some a"
    by (auto simp: checkout_def checkout_products_eq Let_def split: if_splits option.splits)
  from usr run ne have chk: "\<not> address_missing addr" "phone_in \<noteq> []" "pm \<noteq> []"
      "pm \<in> set payment_methods"
    by (auto simp: checkout_def split: if_splits)
  show ?thesis
  proof (cases "find_pending uid (orders st)")
    case None
    with usr run ne a chk
    have eq: "ord = checkout_order now uid usr addr phone_in pm txn st"
      and st': "st' = st\<lparr>users := (users st)(uid \<mapsto> usr\<lparr>cartData := []\<rparr>),
                    orders := orders st @ [ord], next_oid := Suc (next_oid st),
                    revenues := updateRevenue now ord ''add'' (revenues st)\<rparr>"
      by (auto simp: checkout_def checkout_products_eq Let_def insert_order_def
            checkout_order_def split: if_splits)
    from st' have "client_cart st' uid = []" "ord \<in> set (orders st')"
      "revenues st' = updateRevenue now ord ''add'' (revenues st)"
      by (simp_all add: client_cart_def)
    with ne eq show ?thesis by blast
  next
    case (Some old)
    with usr run ne a chk
    have eq: "ord = checkout_order now uid usr addr phone_in pm txn st"
      and st': "st' = st\<lparr>users := (users st)(uid \<mapsto> usr\<lparr>cartData := []\<rparr>),
                    orders := replace_order ord (orders st),
                    revenues := updateRevenue now ord ''update'' (revenues st)\<rparr>"
      by (auto simp: checkout_def checkout_products_eq Let_def save_order_def
            checkout_order_def split: if_splits)
    from Some have "old \<in> set (orders st)" by (auto dest: find_pending_SomeD)
    moreover from eq Some have "oid old = oid ord" by (simp add: checkout_order_def Let_def)
    ultimately have "ord \<in> set (replace_order ord (orders st))"
      by (rule replace_order_member)
    with st' have "client_cart st' uid = []" "ord \<in> set (orders st')"
      "revenues st' = updateRevenue now ord ''update'' (revenues st)"
      by (simp_all add: client_cart_def)
    with ne eq show ?thesis by blast
  qed
qed

lemma checkout_Inl:
  assumes "users st uid = Some usr" and "cartData usr \<noteq> []" and "\<not> address_missing addr"
    and "phone_in \<noteq> []" and "pm \<in> set payment_methods"
    and "checkout now uid addr phone_in pm txn st = (Inl e, st')"
  shows "e = Internal_server_error
    \<and> st' = st\<lparr>users := (users st)(uid \<mapsto> usr\<lparr>cartData := []\<rparr>)\<rparr>"
proof -
  from assms(5) have pm: "pm \<noteq> []" by (auto simp: payment_methods_def)
  obtain its tot where loop:
    "checkout_products (products st) (cartData usr) ([], 0) = (its, tot)"
    by (cases "checkout_products (products st) (cartData usr) ([], 0)")
  show ?thesis
    using assms pm loop
    by (auto simp: checkout_def Let_def save_order_def insert_order_def
          split: option.splits if_splits)
qed

lemma checkout_succeeds_iff:
  assumes usr: "users st uid = Some usr"
  shows "(\<exists>ord st'. checkout now uid addr phone_in pm txn st = (Inr ord, st')) \<longleftrightarrow>
     (cartData usr \<noteq> [] \<and> phone_in \<noteq> [] \<and> pm \<in> set payment_methods
      \<and> (\<exists>a. address_field addr = Some a \<and> a \<noteq> [])
      \<and> email usr \<noteq> []
      \<and> list_all (\<lambda>item. productName item \<noteq> []) (cart_items (products st) (cartData usr))
      \<and> (find_pending uid (orders st) = None
           \<longrightarrow> Suc (length (orders st)) \<notin> set (map orderId (orders st))))"
    (is "?L \<longleftrightarrow> ?R")
proof
  assume ?L
  then obtain ord st' where run: "checkout now uid addr phone_in pm txn st = (Inr ord, st')"
    by blast
  from usr run have ne: "cartData usr \<noteq> []" "phone_in \<noteq> []" "pm \<in> set payment_methods"
    by (auto simp: checkout_def split: if_splits)
  from usr run obtain a where a: "address_field addr = Some a"
    by (auto simp: checkout_def checkout_products_eq Let_def split: if_splits option.splits)
  show ?R
  proof (cases "find_pending uid (orders st)")
    case None
    with usr run ne a show ?thesis
      by (auto simp: checkout_def checkout_products_eq Let_def insert_order_def
            order_valid_def new_order_def split: if_splits)
  next
    case (Some old)
    with usr run ne a show ?thesis
      by (auto simp: checkout_def checkout_products_eq Let_def save_order_def
            order_valid_def split: if_splits)
  qed
next
  assume r: ?R
  then obtain a where a: "address_field addr = Some a" "a \<noteq> []" by blast
  then have miss: "\<not> address_missing addr" by (cases addr) auto
  have gov: "governorate_field addr \<noteq> []" by (cases addr) (simp_all add: or_else_def unspecified_def)
  from r have pm: "pm \<noteq> []" by (auto simp: payment_methods_def)
  show ?L
  proof (cases "find_pending uid (orders st)")
    case None
    with usr r a miss gov pm show ?thesis
      by (simp add: checkout_def checkout_products_eq Let_def insert_order_def
            order_valid_def new_order_def or_else_def)
  next
    case (Some old)
    with usr r a miss gov pm show ?thesis
      by (simp add: checkout_def checkout_products_eq Let_def save_order_def
            order_valid_def or_else_def)
  qed
qed

lemma checkout_order_properties:
  fixes now uid usr addr phone_in pm txn st
  defines "ord \<equiv> checkout_order now uid usr addr phone_in pm txn st"
  shows "items ord = cart_items (products st) (cartData usr)
        \<and> (\<forall>k sm sz q pr. (k, sm) \<in> set (cartData usr) \<and> (sz, q) \<in> set sm \<and> 0 < q
              \<and> find (\<lambda>p. prod_id p = k) (products st) = Some pr
              \<longrightarrow> line_item pr k sz q \<in> set (items ord))
        \<and> (\<forall>i \<in> set (items ord). istatus i = Checkedout \<and> itemTotal i = price i * quantity i)
        \<and> (\<forall>k. find (\<lambda>p. prod_id p = k) (products st) = None
              \<longrightarrow> k \<notin> productId ` set (items ord))
        \<and> total ord = sum_list (map itemTotal (items ord))
        \<and> checkedout_sum ord = sum_list (map itemTotal (items ord))
        \<and> order_day now ord =
             (case find_pending uid (orders st) of
                Some old \<Rightarrow> order_day now old | None \<Rightarrow> now)"
proof -
  have its: "items ord = cart_items (products st) (cartData usr)"
    and tot: "total ord = sum_list (map itemTotal (items ord))"
    by (simp_all add: ord_def checkout_order_fields)
  have complete: "\<forall>k sm sz q pr. (k, sm) \<in> set (cartData usr) \<and> (sz, q) \<in> set sm \<and> 0 < q
              \<and> find (\<lambda>p. prod_id p = k) (products st) = Some pr
              \<longrightarrow> line_item pr k sz q \<in> set (items ord)"
    unfolding its cart_items_member by blast
  have sound: "\<forall>i \<in> set (items ord). istatus i = Checkedout \<and> itemTotal i = price i * quantity i"
    unfolding its by (auto simp: cart_items_member line_item_def)
  have known: "\<forall>k. find (\<lambda>p. prod_id p = k) (products st) = None
              \<longrightarrow> k \<notin> productId ` set (items ord)"
    unfolding its by (auto simp: cart_items_member line_item_def)
  have day: "order_day now ord =
             (case find_pending uid (orders st) of
                Some old \<Rightarrow> order_day now old | None \<Rightarrow> now)"
    by (simp add: ord_def checkout_order_def order_day_def Let_def new_order_def
          split: option.splits)
  have sum: "checkedout_sum ord = sum_list (map itemTotal (items ord))"
    by (simp add: ord_def checkout_order_checkedout_sum checkout_order_fields)
  from its complete sound known tot sum day show ?thesis by (intro conjI)
qed

lemma checkout_Inr_general:
  assumes usr: "users st uid = Some usr"
    and run: "checkout now uid addr phone_in pm txn st = (Inr ord, st')"
  shows "cartData usr \<noteq> []
        \<and> items ord = cart_items (products st) (cartData usr)
        \<and> (\<forall>k sm sz q pr. (k, sm) \<in> set (cartData usr) \<and> (sz, q) \<in> set sm \<and> 0 < q
              \<and> find (\<lambda>p. prod_id p = k) (products st) = Some pr
              \<longrightarrow> line_item pr k sz q \<in> set (items ord))
        \<and> (\<forall>i \<in> set (items ord). istatus i = Checkedout \<and> itemTotal i = price i * quantity i)
        \<and> (\<forall>k. find (\<lambda>p. prod_id p = k) (products st) = None
              \<longrightarrow> k \<notin> productId ` set (items ord))
        \<and> total ord = sum_list (map itemTotal (items ord))
        \<and> ord \<in> set (orders st')
        \<and> client_cart st' uid = []
        \<and> order_day now ord =
             (case find_pending uid (orders st) of
                Some old \<Rightarrow> order_day now old | None \<Rightarrow> now)
        \<and> checkedoutRevenue (bucket (revenues st') (order_day now ord))
            = checkedoutRevenue (bucket (revenues st) (order_day now ord))
              + sum_list (map itemTotal (items ord))
        \<and> (\<forall>d. d \<noteq> order_day now ord
              \<longrightarrow> bucket (revenues st') d = bucket (revenues st) d)"
proof -
  from checkout_Inr [OF usr run] obtain action where
    ne: "cartData usr \<noteq> []"
    and eq: "ord = checkout_order now uid usr addr phone_in pm txn st"
    and cart: "client_cart st' uid = []" and mem: "ord \<in> set (orders st')"
    and revs: "revenues st' = updateRevenue now ord action (revenues st)"
    and action: "action = ''add'' \<or> action = ''update''"
    by blast
  note props = checkout_order_properties [of now uid usr addr phone_in pm txn st, folded eq]
  from props have sum: "checkedout_sum ord = sum_list (map itemTotal (items ord))" by simp
  have rev: "checkedoutRevenue (bucket (revenues st') (order_day now ord))
            = checkedoutRevenue (bucket (revenues st) (order_day now ord))
              + sum_list (map itemTotal (items ord))"
    using action
    by (auto simp: revs updateRevenue_add_bucket updateRevenue_update_bucket Let_def sum)
  have other: "\<forall>d. d \<noteq> order_day now ord \<longrightarrow> bucket (revenues st') d = bucket (revenues st) d"
    by (simp add: revs updateRevenue_other_day)
  note its = props [THEN conjunct1]
    and complete = props [THEN conjunct2, THEN conjunct1]
    and sound = props [THEN conjunct2, THEN conjunct2, THEN conjunct1]
    and known = props [THEN conjunct2, THEN conjunct2, THEN conjunct2, THEN conjunct1]
    and tot = props [THEN conjunct2, THEN conjunct2, THEN conjunct2, THEN conjunct2,
                     THEN conjunct1]
    and day = props [THEN conjunct2, THEN conjunct2, THEN conjunct2, THEN conjunct2,
                     THEN conjunct2, THEN conjunct2]
  from ne its complete sound known tot mem cart day rev other show ?thesis
    by (intro conjI)
qed

text \<open>
  C5, as the claim states it, fails in two places. The claim has checkout build an order
  item for each cart entry, but an entry whose product is not in the catalog gets none:
  in \<open>state_ghost\<close> the cart has an entry for product 9 and the order has a single item,
  for product 1. The claim has the checked-out revenue of the current day grow, but
  \<^verbatim>\<open>updateRevenue\<close> files the order under its creation day: when the pending order of
  scenario D was created on \<open>day1\<close> and the checkout happens on \<open>day2\<close>, the bucket of
  \<open>day2\<close> keeps its checked-out revenue and the bucket of \<open>day1\<close> gains the 250.
\<close>

theorem checkout_claim_counterexample:
  "cart_quantity (client_cart state_ghost 7) 9 ''S'' = 1
   \<and> map_option (\<lambda>ord. map productId (items ord))
        (response_order (checkout day1 7 home ''0100'' ''cash_on_delivery'' None state_ghost))
       = Some [1]
   \<and> map_option total
        (response_order (checkout day2 7 home ''0100'' ''cash_on_delivery'' None state_D))
       = Some 250
   \<and> checkedoutRevenue
        (bucket (revenues (snd (checkout day2 7 home ''0100'' ''cash_on_delivery'' None state_D)))
           day2)
       = checkedoutRevenue (bucket (revenues state_D) day2)
   \<and> checkedoutRevenue
        (bucket (revenues (snd (checkout day2 7 home ''0100'' ''cash_on_delivery'' None state_D)))
           day1)
       = checkedoutRevenue (bucket (revenues state_D) day1) + 250"
proof -
  have entry: "cart_quantity (client_cart state_ghost 7) 9 ''S'' = 1"
    by (simp add: state_ghost_def client_cart_def cart_quantity_def)
  let ?usr = "alice\<lparr>cartData := [(1, [(''M'', 2)]), (9, [(''S'', 1)])]\<rparr>"
  from checkout_general [OF state_ghost_ready, of day1 None] obtain ord st' where
    run: "checkout day1 7 home ''0100'' ''cash_on_delivery'' None state_ghost = (Inr ord, st')"
    and its: "items ord = cart_items (products state_ghost) (cartData ?usr)"
    by blast
  have "cartData ?usr = [(1, [(''M'', 2)]), (9, [(''S'', 1)])]" by simp
  with its have "items ord = [item_shirts 2 Checkedout]"
    by (simp only: state_ghost_items)
  with run have ghost: "map_option (\<lambda>ord. map productId (items ord))
        (response_order (checkout day1 7 home ''0100'' ''cash_on_delivery'' None state_ghost))
       = Some [1]"
    by (simp add: response_order_def item_shirts_def)
  from checkout_state_D [of day2] obtain ordD stD where
    runD: "checkout day2 7 home ''0100'' ''cash_on_delivery'' None state_D = (Inr ordD, stD)"
    and totD: "total ordD = 250"
    and revD: "checkedoutRevenue (bucket (revenues stD) day1) = 250"
    and otherD: "\<forall>d. d \<noteq> day1 \<longrightarrow> bucket (revenues stD) d = bucket (revenues state_D) d"
    by blast
  have "day2 \<noteq> day1" by (simp add: day1_def day2_def)
  with otherD have "bucket (revenues stD) day2 = bucket (revenues state_D) day2" by blast
  with entry ghost runD totD revD show ?thesis
    by (simp add: response_order_def state_D_pending)
qed

text \<open>
  C5, amended. For every user, a checkout that reports success had a non-empty cart and
  has built exactly the items of the cart entries (product, size, quantity) with a
  positive quantity whose product is in the catalog, in the order of the cart: each such
  entry has its item, every item has status \<open>Checkedout\<close> and item total = the product's
  current price times the quantity, and no item carries the id of a product that is
  missing from the catalog; the order's total is the sum of those item totals; the order
  is stored; the user's cart is empty; and the \<open>checkedoutRevenue\<close> of the bucket of the
  order's creation day (the current day when the checkout creates the order, the day the
  pending order was created otherwise) has grown by the sum of the item totals, while the
  buckets of all other days keep their values. The checkout of an existing user reports
  success exactly when the cart is not empty, phone and a known payment method are given,
  the address yields a non-empty string (a non-empty string, or an object with a
  non-empty \<^verbatim>\<open>address\<close> field), the user's e-mail address and the names of the built items
  are not empty, and, when the user has no pending order, the order identifier made from
  the number of stored orders plus one is not taken. A request that passes the handler's
  own checks (address, phone and a known payment method given, user found, cart not
  empty) and does not succeed is answered with the internal error, after the cart was
  emptied and with orders and revenue as they were. Starting from the cart of scenario D,
  mirrored by a pending order created the same day, both resulting items are checked out,
  the order's total is unchanged, and that day's checked-out revenue grows by the sum of
  both item totals.
\<close>

theorem checkout_builds_checked_out_items:
  "(users st uid = Some usr \<and> checkout now uid addr phone_in pm txn st = (Inr ord, st') \<longrightarrow>
        cartData usr \<noteq> []
        \<and> items ord = cart_items (products st) (cartData usr)
        \<and> (\<forall>k sm sz q pr. (k, sm) \<in> set (cartData usr) \<and> (sz, q) \<in> set sm \<and> 0 < q
              \<and> find (\<lambda>p. prod_id p = k) (products st) = Some pr
              \<longrightarrow> line_item pr k sz q \<in> set (items ord))
        \<and> (\<forall>i \<in> set (items ord). istatus i = Checkedout \<and> itemTotal i = price i * quantity i)
        \<and> (\<forall>k. find (\<lambda>p. prod_id p = k) (products st) = None
              \<longrightarrow> k \<notin> productId ` set (items ord))
        \<and> total ord = sum_list (map itemTotal (items ord))
        \<and> ord \<in> set (orders st')
        \<and> client_cart st' uid = []
        \<and> order_day now ord =
             (case find_pending uid (orders st) of
                Some old \<Rightarrow> order_day now old | None \<Rightarrow> now)
        \<and> checkedoutRevenue (bucket (revenues st') (order_day now ord))
            = checkedoutRevenue (bucket (revenues st) (order_day now ord))
              + sum_list (map itemTotal (items ord))
        \<and> (\<forall>d. d \<noteq> order_day now ord
              \<longrightarrow> bucket (revenues st') d = bucket (revenues st) d))
   \<and> (users st uid = Some usr \<longrightarrow>
        ((\<exists>ord st'. checkout now uid addr phone_in pm txn st = (Inr ord, st')) \<longleftrightarrow>
           (cartData usr \<noteq> [] \<and> phone_in \<noteq> [] \<and> pm \<in> set payment_methods
            \<and> (\<exists>a. address_field addr = Some a \<and> a \<noteq> [])
            \<and> email usr \<noteq> []
            \<and> list_all (\<lambda>item. productName item \<noteq> [])
                 (cart_items (products st) (cartData usr))
            \<and> (find_pending uid (orders st) = None
                 \<longrightarrow> Suc (length (orders st)) \<notin> set (map orderId (orders st))))))
   \<and> (users st uid = Some usr \<and> cartData usr \<noteq> [] \<and> \<not> address_missing addr
        \<and> phone_in \<noteq> [] \<and> pm \<in> set payment_methods
        \<and> checkout now uid addr phone_in pm txn st = (Inl e, st')
      \<longrightarrow> e = Internal_server_error \<and> client_cart st' uid = []
          \<and> orders st' = orders st \<and> revenues st' = revenues st)
   \<and> (\<exists>ord st'. checkout day1 7 home ''0100'' ''cash_on_delivery'' None state_D = (Inr ord, st')
        \<and> map istatus (items ord) = [Checkedout, Checkedout]
        \<and> map itemTotal (items ord) = [200, 50]
        \<and> total ord = total order_D
        \<and> client_cart st' 7 = []
        \<and> checkedoutRevenue (bucket (revenues st') day1)
            = checkedoutRevenue (bucket (revenues state_D) day1) + (200 + 50))"
proof -
  have success: "users st uid = Some usr \<and> checkout now uid addr phone_in pm txn st = (Inr ord, st') \<longrightarrow>
        cartData usr \<noteq> []
        \<and> items ord = cart_items (products st) (cartData usr)
        \<and> (\<forall>k sm sz q pr. (k, sm) \<in> set (cartData usr) \<and> (sz, q) \<in> set sm \<and> 0 < q
              \<and> find (\<lambda>p. prod_id p = k) (products st) = Some pr
              \<longrightarrow> line_item pr k sz q \<in> set (items ord))
        \<and> (\<forall>i \<in> set (items ord). istatus i = Checkedout \<and> itemTotal i = price i * quantity i)
        \<and> (\<forall>k. find (\<lambda>p. prod_id p = k) (products st) = None
              \<longrightarrow> k \<notin> productId ` set (items ord))
        \<and> total ord = sum_list (map itemTotal (items ord))
        \<and> ord \<in> set (orders st')
        \<and> client_cart st' uid = []
        \<and> order_day now ord =
             (case find_pending uid (orders st) of
                Some old \<Rightarrow> order_day now old | None \<Rightarrow> now)
        \<and> checkedoutRevenue (bucket (revenues st') (order_day now ord))
            = checkedoutRevenue (bucket (revenues st) (order_day now ord))
              + sum_list (map itemTotal (items ord))
        \<and> (\<forall>d. d \<noteq> order_day now ord
              \<longrightarrow> bucket (revenues st') d = bucket (revenues st) d)"
  proof
    assume "users st uid = Some usr \<and> checkout now uid addr phone_in pm txn st = (Inr ord, st')"
    then have "users st uid = Some usr"
      and "checkout now uid addr phone_in pm txn st = (Inr ord, st')"
      by simp_all
    then show "cartData usr \<noteq> []
        \<and> items ord = cart_items (products st) (cartData usr)
        \<and> (\<forall>k sm sz q pr. (k, sm) \<in> set (cartData usr) \<and> (sz, q) \<in> set sm \<and> 0 < q
              \<and> find (\<lambda>p. prod_id p = k) (products st) = Some pr
              \<longrightarrow> line_item pr k sz q \<in> set (items ord))
        \<and> (\<forall>i \<in> set (items ord). istatus i = Checkedout \<and> itemTotal i = price i * quantity i)
        \<and> (\<forall>k. find (\<lambda>p. prod_id p = k) (products st) = None
              \<longrightarrow> k \<notin> productId ` set (items ord))
        \<and> total ord = sum_list (map itemTotal (items ord))
        \<and> ord \<in> set (orders st')
        \<and> client_cart st' uid = []
        \<and> order_day now ord =
             (case find_pending uid (orders st) of
                Some old \<Rightarrow> order_day now old | None \<Rightarrow> now)
        \<and> checkedoutRevenue (bucket (revenues st') (order_day now ord))
            = checkedoutRevenue (bucket (revenues st) (order_day now ord))
              + sum_list (map itemTotal (items ord))
        \<and> (\<forall>d. d \<noteq> order_day now ord
              \<longrightarrow> bucket (revenues st') d = bucket (revenues st) d)"
      by (rule checkout_Inr_general)
  qed
  have exact: "users st uid = Some usr \<longrightarrow>
        ((\<exists>ord st'. checkout now uid addr phone_in pm txn st = (Inr ord, st')) \<longleftrightarrow>
           (cartData usr \<noteq> [] \<and> phone_in \<noteq> [] \<and> pm \<in> set payment_methods
            \<and> (\<exists>a. address_field addr = Some a \<and> a \<noteq> [])
            \<and> email usr \<noteq> []
            \<and> list_all (\<lambda>item. productName item \<noteq> [])
                 (cart_items (products st) (cartData usr))
            \<and> (find_pending uid (orders st) = None
                 \<longrightarrow> Suc (length (orders st)) \<notin> set (map orderId (orders st)))))"
    by (rule impI) (rule checkout_succeeds_iff)
  have failure: "users st uid = Some usr \<and> cartData usr \<noteq> [] \<and> \<not> address_missing addr
        \<and> phone_in \<noteq> [] \<and> pm \<in> set payment_methods
        \<and> checkout now uid addr phone_in pm txn st = (Inl e, st')
      \<longrightarrow> e = Internal_server_error \<and> client_cart st' uid = []
          \<and> orders st' = orders st \<and> revenues st' = revenues st"
  proof
    assume "users st uid = Some usr \<and> cartData usr \<noteq> [] \<and> \<not> address_missing addr
        \<and> phone_in \<noteq> [] \<and> pm \<in> set payment_methods
        \<and> checkout now uid addr phone_in pm txn st = (Inl e, st')"
    then have "users st uid = Some usr" "cartData usr \<noteq> []" "\<not> address_missing addr"
      "phone_in \<noteq> []" "pm \<in> set payment_methods"
      "checkout now uid addr phone_in pm txn st = (Inl e, st')"
      by simp_all
    then have "e = Internal_server_error
        \<and> st' = st\<lparr>users := (users st)(uid \<mapsto> usr\<lparr>cartData := []\<rparr>)\<rparr>"
      by (rule checkout_Inl)
    then show "e = Internal_server_error \<and> client_cart st' uid = []
          \<and> orders st' = orders st \<and> revenues st' = revenues st"
      by (simp add: client_cart_def)
  qed
  have scenario: "\<exists>ord st'. checkout day1 7 home ''0100'' ''cash_on_delivery'' None state_D = (Inr ord, st')
        \<and> map istatus (items ord) = [Checkedout, Checkedout]
        \<and> map itemTotal (items ord) = [200, 50]
        \<and> total ord = total order_D
        \<and> client_cart st' 7 = []
        \<and> checkedoutRevenue (bucket (revenues st') day1)
            = checkedoutRevenue (bucket (revenues state_D) day1) + (200 + 50)"
  proof -
    from checkout_state_D [of day1] obtain ord st' where
      run: "checkout day1 7 home ''0100'' ''cash_on_delivery'' None state_D = (Inr ord, st')"
      and its: "items ord = [item_shirts 2 Checkedout, item_hats 1 Checkedout]"
      and tot: "total ord = 250" and cart: "client_cart st' 7 = []"
      and rev: "checkedoutRevenue (bucket (revenues st') day1) = 250"
      by blast
    from run its tot cart rev show ?thesis
      by (intro exI [of _ ord] exI [of _ st'] conjI)
         (simp_all add: item_shirts_def item_hats_def state_D_pending)
  qed
  from success exact failure scenario show ?thesis by (intro conjI)
qed

theorem checkout_builds_checked_out_items_witness:
  "(\<exists>ord st'. checkout day2 7 home ''0100'' ''cash_on_delivery'' None state_ghost = (Inr ord, st')
       \<and> items ord = [item_shirts 2 Checkedout]
       \<and> total ord = 200
       \<and> client_cart st' 7 = []
       \<and> order_day day2 ord = day2
       \<and> checkedoutRevenue (bucket (revenues st') day2)
           = checkedoutRevenue (bucket (revenues state_ghost) day2) + 200)
   \<and> (\<exists>st'. checkout day1 7 (Addr_object [] ''Cairo'') ''0100'' ''cash_on_delivery'' None state_D
               = (Inl Internal_server_error, st')
         \<and> client_cart st' 7 = [] \<and> orders st' = orders state_D
         \<and> revenues st' = revenues state_D)"
proof -
  let ?usr = "alice\<lparr>cartData := [(1, [(''M'', 2)]), (9, [(''S'', 1)])]\<rparr>"
  have cart: "cartData ?usr = [(1, [(''M'', 2)]), (9, [(''S'', 1)])]" by simp
  have usr: "users state_ghost 7 = Some ?usr" by (simp add: state_ghost_def)
  have pend: "find_pending 7 (orders state_ghost) = None"
    and free: "Suc (length (orders state_ghost)) \<notin> set (map orderId (orders state_ghost))"
    by (simp_all add: state_ghost_def find_pending_def)
  have conds: "cartData ?usr \<noteq> [] \<and> ''0100'' \<noteq> [] \<and> ''cash_on_delivery'' \<in> set payment_methods
      \<and> (\<exists>a. address_field home = Some a \<and> a \<noteq> [])
      \<and> email ?usr \<noteq> []
      \<and> list_all (\<lambda>item. productName item \<noteq> [])
           (cart_items (products state_ghost) (cartData ?usr))"
    unfolding cart state_ghost_items
    by (simp add: payment_methods_def home_def alice_def item_shirts_def)
  note exact = checkout_builds_checked_out_items
      [where st = state_ghost and uid = 7 and usr = ?usr and now = day2 and addr = home
         and phone_in = "''0100''" and pm = "''cash_on_delivery''" and txn = None,
       THEN conjunct2, THEN conjunct1]
  from exact usr conds free obtain ord st' where
    run: "checkout day2 7 home ''0100'' ''cash_on_delivery'' None state_ghost = (Inr ord, st')"
    by blast
  note success = checkout_builds_checked_out_items
      [where st = state_ghost and uid = 7 and usr = ?usr and now = day2 and addr = home
         and phone_in = "''0100''" and pm = "''cash_on_delivery''" and txn = None
         and ord = ord and st' = st', THEN conjunct1]
  from success usr run have its: "items ord = cart_items (products state_ghost) (cartData ?usr)"
    and tot: "total ord = sum_list (map itemTotal (items ord))"
    and empty: "client_cart st' 7 = []"
    and day: "order_day day2 ord =
             (case find_pending 7 (orders state_ghost) of
                Some old \<Rightarrow> order_day day2 old | None \<Rightarrow> day2)"
    and rev: "checkedoutRevenue (bucket (revenues st') (order_day day2 ord))
            = checkedoutRevenue (bucket (revenues state_ghost) (order_day day2 ord))
              + sum_list (map itemTotal (items ord))"
    by blast+
  from its have its': "items ord = [item_shirts 2 Checkedout]"
    unfolding cart state_ghost_items .
  from tot have tot': "total ord = 200" unfolding its' by (simp add: item_shirts_def)
  from day have day': "order_day day2 ord = day2" unfolding pend by simp
  from rev have rev': "checkedoutRevenue (bucket (revenues st') day2)
           = checkedoutRevenue (bucket (revenues state_ghost) day2) + 200"
    unfolding day' its' by (simp add: item_shirts_def)
  from run its' tot' empty day' rev'
  have first: "\<exists>ord st'. checkout day2 7 home ''0100'' ''cash_on_delivery'' None state_ghost = (Inr ord, st')
       \<and> items ord = [item_shirts 2 Checkedout]
       \<and> total ord = 200
       \<and> client_cart st' 7 = []
       \<and> order_day day2 ord = day2
       \<and> checkedoutRevenue (bucket (revenues st') day2)
           = checkedoutRevenue (bucket (revenues state_ghost) day2) + 200"
    by (intro exI [of _ ord] exI [of _ st'] conjI)
  let ?usrD = "alice\<lparr>cartData := [(1, [(''M'', 2)]), (2, [(''L'', 1)])]\<rparr>"
  let ?stD = "state_D\<lparr>users := (users state_D)(7 \<mapsto> ?usrD\<lparr>cartData := []\<rparr>)\<rparr>"
  have runD: "checkout day1 7 (Addr_object [] ''Cairo'') ''0100'' ''cash_on_delivery'' None state_D
               = (Inl Internal_server_error, ?stD)"
    by (simp add: checkout_def state_D_def payment_methods_def P1_def P2_def Let_def
          price_or_zero_def)
  have hyps: "users state_D 7 = Some ?usrD \<and> cartData ?usrD \<noteq> []
       \<and> \<not> address_missing (Addr_object [] ''Cairo'') \<and> ''0100'' \<noteq> []
       \<and> ''cash_on_delivery'' \<in> set payment_methods"
    by (simp add: state_D_def payment_methods_def)
  note failure = checkout_builds_checked_out_items
      [where st = state_D and uid = 7 and usr = ?usrD and now = day1
         and addr = "Addr_object [] ''Cairo''"
         and phone_in = "''0100''" and pm = "''cash_on_delivery''" and txn = None
         and e = Internal_server_error and st' = ?stD,
       THEN conjunct2, THEN conjunct2, THEN conjunct1]
  from failure hyps runD
  have "client_cart ?stD 7 = [] \<and> orders ?stD = orders state_D
         \<and> revenues ?stD = revenues state_D"
    by blast
  with runD
  have second: "\<exists>st'. checkout day1 7 (Addr_object [] ''Cairo'') ''0100'' ''cash_on_delivery'' None state_D
               = (Inl Internal_server_error, st')
         \<and> client_cart st' 7 = [] \<and> orders st' = orders state_D
         \<and> revenues st' = revenues state_D"
    by (intro exI [of _ ?stD] conjI) simp_all
  from first second show ?thesis by (rule conjI)
qed

section \<open>Properties of the cart store\<close>






lemma assign_size_nonempty [simp]: "assign_size k v sm \<noteq> []"
  by (cases sm) (auto split: if_splits)

lemma assign_product_nonempty [simp]: "assign_product k v c \<noteq> []"
  by (cases c) (auto split: if_splits)






section \<open>Setting a quantity\<close>

lemma createOrUpdateOrder_frame:
  "createOrUpdateOrder now uid usr pr q sz pm action st = Some st'
     \<Longrightarrow> users st' = users st \<and> products st' = products st"
  by (auto simp: createOrUpdateOrder_def Let_def insert_order_def save_order_def
        split: option.splits if_splits)


lemma state_B_reached:
  "snd (addtocart day1 7 1 (Some 2) ''M'' ''cash'' (snd (addToCart day1 7 1 ''M'' ''cash'' state0)))
     = state_B"
  by (simp add: addToCart_def server_reply_def addtocart_def createOrUpdateOrder_def
        insert_order_def save_order_def
        state0_def state_B_def order_B_def P1_def P2_def alice_def alice_info_def
        item_shirts_def new_order_def order_valid_def payment_methods_def
        or_else_def default_sizes_def add_cart_line_def delete_key_def find_pending_def
        price_or_zero_def merge_item_def items_total_def cancel_if_empty_def
        updateRevenue_def bucket_def zero_revenue_def checkedout_total_def Let_def)










section \<open>How the routes change the collections\<close>

lemma evolve_refl [simp]: "evolve strict os n os n"
  by (simp add: evolve_def)

lemma users_evolve_refl [simp]: "users_evolve us us"
  by (simp add: users_evolve_def)

lemma save_order_evolve:
  assumes "save_order ord st = Some st1" and "old \<in> set (orders st)" and "oid ord = oid old"
    and "userId ord = userId old" and "strict \<longrightarrow> status ord = Pending \<longrightarrow> status old = Pending"
  shows "evolve strict (orders st) (next_oid st) (orders st1) (next_oid st1)"
    and "users st1 = users st" and "revenues st1 = revenues st" and "products st1 = products st"
proof -
  from assms(1) have st1: "st1 = st\<lparr>orders := replace_order ord (orders st)\<rparr>"
    by (auto simp: save_order_def split: if_splits)
  from assms(2-5) show "evolve strict (orders st) (next_oid st) (orders st1) (next_oid st1)"
    unfolding st1 evolve_def by auto
  show "users st1 = users st" "revenues st1 = revenues st" "products st1 = products st"
    by (simp_all add: st1)
qed

lemma insert_order_evolve:
  assumes "insert_order now ord st = Some (ord', st1)" and "status ord = Pending"
    and "find_pending (userId ord) (orders st) = None"
  shows "evolve strict (orders st) (next_oid st) (orders st1) (next_oid st1)"
    and "users st1 = users st" and "revenues st1 = revenues st" and "products st1 = products st"
proof -
  from assms(1) have ord': "ord' = ord\<lparr>oid := next_oid st, createdAt := Some now\<rparr>"
    and st1: "st1 = st\<lparr>orders := orders st @ [ord'], next_oid := Suc (next_oid st)\<rparr>"
    by (auto simp: insert_order_def Let_def split: if_splits)
  from assms(2,3) show "evolve strict (orders st) (next_oid st) (orders st1) (next_oid st1)"
    unfolding st1 evolve_def by (auto simp: ord')
  show "users st1 = users st" "revenues st1 = revenues st" "products st1 = products st"
    by (simp_all add: st1)
qed

lemma cancel_if_empty_fields [simp]:
  "oid (cancel_if_empty now ord) = oid ord"
  "userId (cancel_if_empty now ord) = userId ord"
  by (simp_all add: cancel_if_empty_def)

lemma createOrUpdateOrder_evolve:
  assumes "createOrUpdateOrder now uid usr pr q sz pm action st = Some st'"
  shows "evolve True (orders st) (next_oid st) (orders st') (next_oid st')"
proof (cases "find_pending uid (orders st)")
  case None
  show ?thesis
  proof (cases "action = ''add'' \<and> 0 < q")
    case False
    with None assms have "st' = st" by (auto simp: createOrUpdateOrder_def Let_def)
    then show ?thesis by simp
  next
    case True
    with None assms obtain ord ord' st1 where
      ins: "insert_order now ord st = Some (ord', st1)"
      and ord: "status ord = Pending" "userId ord = uid"
      and st': "st' = st1\<lparr>revenues := updateRevenue now ord' ''add'' (revenues st1)\<rparr>"
      by (auto simp: createOrUpdateOrder_def Let_def new_order_def split: option.splits)
    from insert_order_evolve(1) [OF ins ord(1), of True] None ord(2) show ?thesis
      by (simp add: st')
  qed
next
  case (Some old)
  then have old: "old \<in> set (orders st)" "userId old = uid" "status old = Pending"
    by (auto dest: find_pending_SomeD)
  from Some assms obtain ord st1 where
    sv: "save_order ord st = Some st1"
    and ord: "oid ord = oid old" "userId ord = userId old"
    and st': "st' = st1\<lparr>revenues := updateRevenue now ord ''update'' (revenues st1)\<rparr>"
    by (auto simp: createOrUpdateOrder_def Let_def split: option.splits)
  from save_order_evolve(1) [OF sv old(1) ord, of True] old(3) show ?thesis
    by (simp add: st')
qed

lemma users_evolve_add:
  "us uid = Some usr \<Longrightarrow> cartData usr' = add_cart_line k sz q (cartData usr)
     \<Longrightarrow> users_evolve us (us(uid \<mapsto> usr'))"
  unfolding users_evolve_def by blast

lemma users_evolve_set:
  "us uid = Some usr \<Longrightarrow> cartData usr' = set_cart_line k sz n (cartData usr)
     \<Longrightarrow> users_evolve us (us(uid \<mapsto> usr'))"
  unfolding users_evolve_def by blast

lemma users_evolve_empty:
  "us uid = Some usr \<Longrightarrow> cartData usr' = [] \<Longrightarrow> users_evolve us (us(uid \<mapsto> usr'))"
  unfolding users_evolve_def by blast

lemma createOrUpdateOrder_effect:
  "createOrUpdateOrder now uid usr pr q sz pm action st = Some st'
     \<Longrightarrow> evolve True (orders st) (next_oid st) (orders st') (next_oid st')
         \<and> users st' = users st"
  using createOrUpdateOrder_evolve createOrUpdateOrder_frame by blast

lemma addtocart_effect:
  "evolve True (orders st) (next_oid st)
     (orders (snd (addtocart now uid k qin szin pmin st)))
     (next_oid (snd (addtocart now uid k qin szin pmin st)))
   \<and> users_evolve (users st) (users (snd (addtocart now uid k qin szin pmin st)))"
  by (auto simp: addtocart_def Let_def split: option.splits if_splits
        intro!: users_evolve_add dest!: createOrUpdateOrder_effect)

lemma save_order_effect:
  "save_order ord st = Some st1
     \<Longrightarrow> orders st1 = replace_order ord (orders st) \<and> next_oid st1 = next_oid st
         \<and> users st1 = users st"
  by (auto simp: save_order_def split: if_splits)

lemma insert_order_effect:
  "insert_order now ord st = Some (ord', st1)
     \<Longrightarrow> orders st1 = orders st @ [ord'] \<and> next_oid st1 = Suc (next_oid st)
         \<and> users st1 = users st \<and> oid ord' = next_oid st \<and> status ord' = status ord
         \<and> userId ord' = userId ord"
  by (auto simp: insert_order_def Let_def split: if_splits)

lemma evolve_replace:
  "old \<in> set os \<Longrightarrow> oid ord = oid old \<Longrightarrow> userId ord = userId old
     \<Longrightarrow> (strict \<longrightarrow> status ord = Pending \<longrightarrow> status old = Pending)
     \<Longrightarrow> evolve strict os n (replace_order ord os) n"
  unfolding evolve_def by blast

lemma evolve_append:
  "oid ord = n \<Longrightarrow> status ord = Pending \<Longrightarrow> find_pending (userId ord) os = None
     \<Longrightarrow> evolve strict os n (os @ [ord]) (Suc n)"
  unfolding evolve_def by blast

lemma evolve_delete: "evolve strict os n (filter (\<lambda>x. oid x \<noteq> k) os) n"
  unfolding evolve_def by blast

lemma find_oid_SomeD: "find (\<lambda>x. oid x = k) os = Some ord \<Longrightarrow> ord \<in> set os \<and> oid ord = k"
  by (auto simp: find_Some_iff)

lemma parse_status_pending: "parse_status x = Some Pending \<Longrightarrow> x = ''pending''"
  by (simp add: parse_status_def split: if_splits)

lemma admin_order_status_effect:
  "evolve (status_in \<noteq> ''pending'') (orders st) (next_oid st)
     (orders (snd (admin_order_status now k status_in n t r st)))
     (next_oid (snd (admin_order_status now k status_in n t r st)))
   \<and> users (snd (admin_order_status now k status_in n t r st)) = users st"
proof (cases "parse_status status_in")
  case None
  then show ?thesis by (simp add: admin_order_status_def)
next
  case (Some s)
  show ?thesis
  proof (cases "find (\<lambda>x. oid x = k) (orders st)")
    case None
    with Some show ?thesis by (simp add: admin_order_status_def)
  next
    case (Some old)
    then have old: "old \<in> set (orders st)" by (auto dest: find_oid_SomeD)
    let ?ord = "apply_status now s n t r old"
    have ord: "oid ?ord = oid old" "userId ?ord = userId old"
      by (simp_all add: apply_status_fields)
    have strict: "status_in \<noteq> ''pending'' \<longrightarrow> status ?ord = Pending \<longrightarrow> status old = Pending"
      using \<open>parse_status status_in = Some s\<close>
      by (auto simp: apply_status_fields dest: parse_status_pending)
    show ?thesis
    proof (cases "save_order ?ord st")
      case None
      with Some \<open>parse_status status_in = Some s\<close> show ?thesis
        by (simp add: admin_order_status_def Let_def)
    next
      case (Some st1)
      have res: "snd (admin_order_status now k status_in n t r st) =
          st1\<lparr>revenues := updateRevenue now ?ord ''update'' (revenues st1)\<rparr>"
        using Some \<open>parse_status status_in = Some s\<close>
          \<open>find (\<lambda>x. oid x = k) (orders st) = Some old\<close>
        by (simp add: admin_order_status_def Let_def)
      from save_order_effect [OF Some] have eqs: "orders st1 = replace_order ?ord (orders st)"
          "next_oid st1 = next_oid st" "users st1 = users st"
        by simp_all
      from evolve_replace [OF old ord strict, of "next_oid st"]
      show ?thesis unfolding res by (simp add: eqs)
    qed
  qed
qed

lemma updatecartquantity_effect:
  "evolve True (orders st) (next_oid st)
     (orders (snd (updatecartquantity now uid k szin qin st)))
     (next_oid (snd (updatecartquantity now uid k szin qin st)))
   \<and> users_evolve (users st) (users (snd (updatecartquantity now uid k szin qin st)))"
  by (auto simp: updatecartquantity_def Let_def split: option.splits if_splits
        intro!: users_evolve_set evolve_replace
        dest!: save_order_effect find_pending_SomeD)

lemma clearcart_effect:
  "evolve True (orders st) (next_oid st)
     (orders (snd (clearcart now uid st))) (next_oid (snd (clearcart now uid st)))
   \<and> users_evolve (users st) (users (snd (clearcart now uid st)))"
  by (auto simp: clearcart_def Let_def split: option.splits if_splits
        intro!: users_evolve_empty evolve_replace
        dest!: save_order_effect find_pending_SomeD)

lemma checkout_effect:
  "evolve True (orders st) (next_oid st)
     (orders (snd (checkout now uid addr ph pm txn st)))
     (next_oid (snd (checkout now uid addr ph pm txn st)))
   \<and> users_evolve (users st) (users (snd (checkout now uid addr ph pm txn st)))"
  by (auto simp: checkout_def Let_def new_order_def
        split: option.splits if_splits prod.splits
        intro!: users_evolve_empty evolve_replace evolve_append
        dest!: save_order_effect insert_order_effect find_pending_SomeD)

lemma createorder_effect:
  "evolve True (orders st) (next_oid st)
     (orders (snd (createorder now uid shipping pm n st)))
     (next_oid (snd (createorder now uid shipping pm n st)))
   \<and> users_evolve (users st) (users (snd (createorder now uid shipping pm n st)))"
  by (auto simp: createorder_def Let_def split: option.splits if_splits prod.splits
        intro!: users_evolve_empty evolve_replace
        dest!: save_order_effect find_pending_SomeD)

lemma admin_delete_order_effect:
  "evolve True (orders st) (next_oid st)
     (orders (snd (admin_delete_order now k st))) (next_oid (snd (admin_delete_order now k st)))
   \<and> users (snd (admin_delete_order now k st)) = users st"
  by (auto simp: admin_delete_order_def Let_def split: option.splits intro!: evolve_delete)

section \<open>Invariants of the collections\<close>

lemma evolve_weaken: "evolve True os n os' n' \<Longrightarrow> evolve strict os n os' n'"
  unfolding evolve_def by blast

lemma snd_server_reply [simp]: "snd (server_reply r) = snd r"
  by (cases r) (auto simp: server_reply_def split: sum.splits)

lemma client_effects:
  "evolve True (orders st) (next_oid st)
     (orders (snd (addToCart now uid k sz pm st))) (next_oid (snd (addToCart now uid k sz pm st)))
   \<and> users_evolve (users st) (users (snd (addToCart now uid k sz pm st)))"
  "evolve True (orders st) (next_oid st)
     (orders (snd (removeFromCart now uid k sz st))) (next_oid (snd (removeFromCart now uid k sz st)))
   \<and> users_evolve (users st) (users (snd (removeFromCart now uid k sz st)))"
  "evolve True (orders st) (next_oid st)
     (orders (snd (updateCartQuantity now uid k sz n st)))
     (next_oid (snd (updateCartQuantity now uid k sz n st)))
   \<and> users_evolve (users st) (users (snd (updateCartQuantity now uid k sz n st)))"
  "evolve True (orders st) (next_oid st)
     (orders (snd (handleUpdateQuantity now uid k sz n st)))
     (next_oid (snd (handleUpdateQuantity now uid k sz n st)))
   \<and> users_evolve (users st) (users (snd (handleUpdateQuantity now uid k sz n st)))"
proof -
  show "evolve True (orders st) (next_oid st)
     (orders (snd (addToCart now uid k sz pm st))) (next_oid (snd (addToCart now uid k sz pm st)))
   \<and> users_evolve (users st) (users (snd (addToCart now uid k sz pm st)))"
    using addtocart_effect by (simp add: addToCart_def split: option.splits)
  show "evolve True (orders st) (next_oid st)
     (orders (snd (removeFromCart now uid k sz st))) (next_oid (snd (removeFromCart now uid k sz st)))
   \<and> users_evolve (users st) (users (snd (removeFromCart now uid k sz st)))"
    using addtocart_effect by (simp add: removeFromCart_def split: option.splits)
  show upd: "evolve True (orders st) (next_oid st)
     (orders (snd (updateCartQuantity now uid k sz n st)))
     (next_oid (snd (updateCartQuantity now uid k sz n st)))
   \<and> users_evolve (users st) (users (snd (updateCartQuantity now uid k sz n st)))" for n
    using addtocart_effect by (simp add: updateCartQuantity_def Let_def split: option.splits)
  show "evolve True (orders st) (next_oid st)
     (orders (snd (handleUpdateQuantity now uid k sz n st)))
     (next_oid (snd (handleUpdateQuantity now uid k sz n st)))
   \<and> users_evolve (users st) (users (snd (handleUpdateQuantity now uid k sz n st)))"
    using upd by (simp add: handleUpdateQuantity_def Let_def)
qed

lemma step_effect:
  "evolve (\<not> sets_pending rq) (orders st) (next_oid st)
     (orders (step now rq st)) (next_oid (step now rq st))
   \<and> users_evolve (users st) (users (step now rq st))"
proof (cases rq)
  case (Set_order_status k s n t r)
  with admin_order_status_effect [of s st now k n t r] show ?thesis by simp
next
  case (Delete_order k)
  with admin_delete_order_effect [of st now k] show ?thesis by (simp add: evolve_weaken)
qed (simp_all add: addtocart_effect updatecartquantity_effect clearcart_effect checkout_effect
      createorder_effect client_effects)

lemma replace_order_split:
  assumes "distinct (map oid os)" and "old \<in> set os" and "oid ord = oid old"
  shows "\<exists>ys zs. os = ys @ old # zs \<and> replace_order ord os = ys @ ord # zs"
  using assms
proof (induction os)
  case Nil
  then show ?case by simp
next
  case (Cons x xs)
  show ?case
  proof (cases "oid x = oid ord")
    case True
    with Cons.prems have "old = x" by (auto simp: image_iff)
    with True show ?thesis by (intro exI [of _ "[]"] exI [of _ xs]) simp
  next
    case False
    with Cons.prems have "old \<in> set xs" "distinct (map oid xs)" by auto
    with Cons.IH Cons.prems(3) obtain ys zs where
      "xs = ys @ old # zs" "replace_order ord xs = ys @ ord # zs" by blast
    with False show ?thesis by (intro exI [of _ "x # ys"] exI [of _ zs]) simp
  qed
qed

lemma map_oid_replace_order: "map oid (replace_order ord os) = map oid os"
  by (induction os) auto

lemma find_pending_None:
  "find_pending uid os = None \<Longrightarrow> uid \<notin> userId ` set (filter (\<lambda>ord. status ord = Pending) os)"
  by (auto simp: find_pending_def find_None_iff)

lemma evolve_preserves:
  assumes ev: "evolve True os n os' n'"
    and oids: "distinct (map oid os)" "list_all (\<lambda>ord. oid ord < n) os"
    and uniq: "distinct (map userId (filter (\<lambda>ord. status ord = Pending) os))"
  shows "distinct (map oid os') \<and> list_all (\<lambda>ord. oid ord < n') os'
       \<and> distinct (map userId (filter (\<lambda>ord. status ord = Pending) os'))"
proof -
  from ev consider (same) "os' = os" "n' = n"
    | (append) ord where "os' = os @ [ord]" "n' = Suc n" "oid ord = n" "status ord = Pending"
        "find_pending (userId ord) os = None"
    | (replace) old ord where "old \<in> set os" "oid ord = oid old" "userId ord = userId old"
        "status ord = Pending \<longrightarrow> status old = Pending" "os' = replace_order ord os" "n' = n"
    | (delete) k where "os' = filter (\<lambda>x. oid x \<noteq> k) os" "n' = n"
    unfolding evolve_def by blast
  then show ?thesis
  proof cases
    case same
    with oids uniq show ?thesis by simp
  next
    case append
    from oids(2) have "n \<notin> oid ` set os" by (auto simp: list_all_iff)
    moreover from oids(2) have "list_all (\<lambda>ord. oid ord < Suc n) os"
      by (auto simp: list_all_iff)
    moreover note find_pending_None [OF append(5)]
    ultimately show ?thesis using append oids uniq by simp
  next
    case replace
    from replace_order_split [OF oids(1) replace(1,2)] obtain ys zs where
      os: "os = ys @ old # zs" and os': "os' = ys @ ord # zs"
      unfolding replace(5) by blast
    have "map oid os' = map oid os" by (simp add: os os' replace(2))
    then have a: "distinct (map oid os')" "list_all (\<lambda>ord. oid ord < n') os'"
      using oids replace(6) unfolding list_all_iff
      by (simp, metis (no_types, lifting) image_iff list.set_map)
    have b: "distinct (map userId (filter (\<lambda>ord. status ord = Pending) os'))"
    proof (cases "status old = Pending")
      case True
      with uniq replace(3,4) show ?thesis
        unfolding os os' by (cases "status ord = Pending") auto
    next
      case False
      with replace(4) have "status ord \<noteq> Pending" by simp
      with uniq False show ?thesis unfolding os os' by simp
    qed
    from a b show ?thesis by simp
  next
    case delete
    let ?P = "\<lambda>ord. status ord = Pending"
    have comm: "filter ?P (filter (\<lambda>x. oid x \<noteq> k) os) = filter (\<lambda>x. oid x \<noteq> k) (filter ?P os)"
      by (induction os) auto
    have "distinct (map userId (filter (\<lambda>x. oid x \<noteq> k) (filter ?P os)))"
      using uniq by (rule distinct_map_filter)
    then have c: "distinct (map userId (filter ?P os'))"
      unfolding delete(1) comm .
    have "distinct (map oid os')"
      unfolding delete(1) using oids(1) by (rule distinct_map_filter)
    moreover have "list_all (\<lambda>ord. oid ord < n') os'"
      using oids(2) unfolding delete list_all_iff by simp
    ultimately show ?thesis using c by simp
  qed
qed

lemma step_preserves_orders:
  assumes "\<not> sets_pending rq" and "oids_fresh st" and "pending_unique st"
  shows "oids_fresh (step now rq st) \<and> pending_unique (step now rq st)"
proof -
  from step_effect [of rq st now] assms(1)
  have "evolve True (orders st) (next_oid st) (orders (step now rq st)) (next_oid (step now rq st))"
    by simp
  from evolve_preserves [OF this] assms(2,3) show ?thesis
    by (simp add: oids_fresh_def pending_unique_def)
qed

lemma run_preserves_orders:
  "list_all (\<lambda>e. \<not> sets_pending (snd e)) rqs \<Longrightarrow> oids_fresh st \<Longrightarrow> pending_unique st
     \<Longrightarrow> oids_fresh (run rqs st) \<and> pending_unique (run rqs st)"
proof (induction rqs arbitrary: st)
  case Nil
  then show ?case by simp
next
  case (Cons e rqs)
  from Cons.prems step_preserves_orders [of "snd e" st "fst e"]
  have "oids_fresh (step (fst e) (snd e) st)" "pending_unique (step (fst e) (snd e) st)"
    by simp_all
  with Cons.IH Cons.prems(1) show ?case by simp
qed

lemma distinct_map_filter_le1:
  "distinct (map f xs) \<Longrightarrow> length (filter (\<lambda>x. f x = u) xs) \<le> 1"
proof (induction xs)
  case Nil
  then show ?case by simp
next
  case (Cons x xs)
  show ?case
  proof (cases "f x = u")
    case True
    with Cons.prems have "\<forall>y \<in> set xs. f y \<noteq> u" by (auto simp: image_iff)
    then have "filter (\<lambda>x. f x = u) xs = []" by (simp add: filter_empty_conv)
    with True show ?thesis by simp
  next
    case False
    with Cons show ?thesis by simp
  qed
qed

lemma pending_unique_le1: "pending_unique st \<Longrightarrow> length (pending_of uid st) \<le> 1"
proof -
  assume "pending_unique st"
  then have "length (filter (\<lambda>x. userId x = uid) (filter (\<lambda>ord. status ord = Pending) (orders st))) \<le> 1"
    unfolding pending_unique_def by (rule distinct_map_filter_le1)
  moreover have "filter (\<lambda>x. userId x = uid) (filter (\<lambda>ord. status ord = Pending) (orders st))
      = pending_of uid st"
    by (auto simp: pending_of_def intro: filter_cong)
  ultimately show ?thesis by simp
qed

section \<open>The single pending order\<close>

lemma length_replace_order [simp]: "length (replace_order ord os) = length os"
  by (induction os) auto

lemma state_after_add_clear_add:
  "map (\<lambda>ord. (oid ord, userId ord, status ord)) (orders (run requests_add_clear_add state0))
     = [(0, 7, Cancelled), (1, 7, Pending)]"
  by (simp add: requests_add_clear_add_def clearcart_def
        addToCart_def server_reply_def addtocart_def createOrUpdateOrder_def
        insert_order_def save_order_def
        state0_def P1_def P2_def alice_def
        new_order_def order_valid_def payment_methods_def
        or_else_def default_sizes_def add_cart_line_def delete_key_def find_pending_def
        price_or_zero_def merge_item_def items_total_def cancel_if_empty_def
        updateRevenue_def bucket_def zero_revenue_def checkedout_total_def Let_def)

text \<open>
  C1, as the claim states it, fails: \<^verbatim>\<open>setOrderStatus\<close> accepts the status \<^verbatim>\<open>pending\<close> for
  any order. After the customer has added an item, cleared the cart (which cancels the
  order) and added an item again (which creates a second order), the admin sets the
  first order back to \<^verbatim>\<open>pending\<close>, and the customer has two pending orders.
\<close>

theorem single_pending_counterexample:
  "map (\<lambda>ord. (oid ord, userId ord, status ord)) (orders (run requests_reopen state0))
     = [(0, 7, Pending), (1, 7, Pending)]
   \<and> length (pending_of 7 (run requests_reopen state0)) = 2"
  by (simp add: requests_reopen_def requests_add_clear_add_def pending_of_def clearcart_def
        admin_order_status_def apply_status_def parse_status_def
        addToCart_def server_reply_def addtocart_def createOrUpdateOrder_def
        insert_order_def save_order_def
        state0_def P1_def P2_def alice_def
        new_order_def order_valid_def payment_methods_def
        or_else_def default_sizes_def add_cart_line_def delete_key_def find_pending_def
        price_or_zero_def merge_item_def items_total_def cancel_if_empty_def
        updateRevenue_def bucket_def zero_revenue_def checkedout_total_def Let_def)

text \<open>
  C1, amended. For every user, after any sequence of cart, checkout and admin requests
  (\<^verbatim>\<open>addToCart\<close>, \<^verbatim>\<open>removeFromCart\<close>, \<^verbatim>\<open>updateCartQuantity\<close>, \<^verbatim>\<open>clearCart\<close>, \<^verbatim>\<open>checkout\<close>,
  \<^verbatim>\<open>createorder\<close>, \<^verbatim>\<open>setOrderStatus\<close>, delete order) in which no \<^verbatim>\<open>setOrderStatus\<close> sets
  the status \<^verbatim>\<open>pending\<close>, at most one order with status \<^verbatim>\<open>pending\<close> exists for that user,
  provided this held before and document ids are unique (as in a shop without orders).
  A request adds an order to the collection only when the order's user had no pending
  order, and the added order is pending.
\<close>

theorem single_pending_order:
  "(oids_fresh st \<and> pending_unique st \<and> list_all (\<lambda>e. \<not> sets_pending (snd e)) rqs
      \<longrightarrow> oids_fresh (run rqs st) \<and> pending_unique (run rqs st)
          \<and> length (pending_of uid (run rqs st)) \<le> 1)
   \<and> (orders st = [] \<and> list_all (\<lambda>e. \<not> sets_pending (snd e)) rqs
      \<longrightarrow> length (pending_of uid (run rqs st)) \<le> 1)
   \<and> (length (orders st) < length (orders (step now rq st))
      \<longrightarrow> (\<exists>ord. orders (step now rq st) = orders st @ [ord] \<and> status ord = Pending
                \<and> find_pending (userId ord) (orders st) = None))"
proof (intro conjI impI)
  assume a: "oids_fresh st \<and> pending_unique st \<and> list_all (\<lambda>e. \<not> sets_pending (snd e)) rqs"
  with run_preserves_orders [of rqs st]
  show "oids_fresh (run rqs st)" and u: "pending_unique (run rqs st)" by simp_all
  from u show "length (pending_of uid (run rqs st)) \<le> 1" by (rule pending_unique_le1)
next
  assume a: "orders st = [] \<and> list_all (\<lambda>e. \<not> sets_pending (snd e)) rqs"
  then have "oids_fresh st" "pending_unique st"
    by (simp_all add: oids_fresh_def pending_unique_def)
  with a run_preserves_orders [of rqs st] have "pending_unique (run rqs st)" by simp
  then show "length (pending_of uid (run rqs st)) \<le> 1" by (rule pending_unique_le1)
next
  assume longer: "length (orders st) < length (orders (step now rq st))"
  from step_effect [of rq st now]
  have "evolve (\<not> sets_pending rq) (orders st) (next_oid st)
          (orders (step now rq st)) (next_oid (step now rq st))"
    by simp
  then consider "orders (step now rq st) = orders st"
    | ord where "orders (step now rq st) = orders st @ [ord]" "status ord = Pending"
        "find_pending (userId ord) (orders st) = None"
    | ord where "orders (step now rq st) = replace_order ord (orders st)"
    | k where "orders (step now rq st) = filter (\<lambda>x. oid x \<noteq> k) (orders st)"
    unfolding evolve_def by blast
  then show "\<exists>ord. orders (step now rq st) = orders st @ [ord] \<and> status ord = Pending
                \<and> find_pending (userId ord) (orders st) = None"
  proof cases
    case 1
    with longer show ?thesis by simp
  next
    case 2
    then show ?thesis by blast
  next
    case 3
    with longer show ?thesis by simp
  next
    case 4
    have "length (filter (\<lambda>x. oid x \<noteq> k) (orders st)) \<le> length (orders st)"
      by (rule length_filter_le)
    with 4 longer show ?thesis by simp
  qed
qed

theorem single_pending_order_witness:
  "orders state0 = [] \<and> list_all (\<lambda>e. \<not> sets_pending (snd e)) requests_add_clear_add
   \<and> length (pending_of 7 (run requests_add_clear_add state0)) \<le> 1
   \<and> length (orders (run requests_add_clear_add state0)) = 2"
proof -
  have a: "orders state0 = []" by (simp add: state0_def)
  have b: "list_all (\<lambda>e. \<not> sets_pending (snd e)) requests_add_clear_add"
    by (simp add: requests_add_clear_add_def)
  from single_pending_order [of state0 requests_add_clear_add 7 day1 "Clear_cart 7"] a b
  have c: "length (pending_of 7 (run requests_add_clear_add state0)) \<le> 1" by blast
  have "length (map (\<lambda>ord. (oid ord, userId ord, status ord))
                  (orders (run requests_add_clear_add state0))) = 2"
    unfolding state_after_add_clear_add by simp
  with a b c show ?thesis by simp
qed

section \<open>Stored cart quantities\<close>







lemma sizes_positive_Nil [simp]: "sizes_positive []"
  by (simp add: sizes_positive_def)












section \<open>Item totals\<close>

lemma findIndex_SomeD: "findIndex P xs = Some i \<Longrightarrow> i < length xs \<and> P (xs ! i)"
proof (induction xs arbitrary: i)
  case Nil
  then show ?case by simp
next
  case (Cons x xs)
  then show ?case by (cases "P x") auto
qed

lemma set_splice1: "set (splice1 i xs) \<subseteq> set xs"
  unfolding splice1_def using set_take_subset [of i xs] set_drop_subset [of "Suc i" xs] by auto

text \<open>Where the catalog price of the product is the price stored in its order items,
  \<^verbatim>\<open>createOrUpdateOrder\<close> keeps every item total equal to price times quantity.\<close>

lemma merge_item_consistent:
  assumes ok: "\<forall>i \<in> set its. itemTotal i = price i * quantity i"
    and same: "\<forall>i \<in> set its. productId i = prod_id pr \<and> item_size i = sz
                 \<longrightarrow> price i = price_or_zero pr"
  shows "\<forall>i \<in> set (merge_item pr q sz action its). itemTotal i = price i * quantity i"
proof (cases "findIndex (\<lambda>item. productId item = prod_id pr \<and> item_size item = sz) its")
  case None
  with ok show ?thesis by (auto simp: merge_item_def Let_def)
next
  case (Some n)
  from findIndex_SomeD [OF Some] have n: "n < length its"
    and hit: "productId (its ! n) = prod_id pr" "item_size (its ! n) = sz" by simp_all
  from n have mem: "its ! n \<in> set its" by simp
  with ok same hit have old: "itemTotal (its ! n) = price (its ! n) * quantity (its ! n)"
    and pr: "price (its ! n) = price_or_zero pr" by auto
  have upd: "\<forall>i \<in> set (its[n := x]). itemTotal i = price i * quantity i"
    if "itemTotal x = price x * quantity x" for x
    using that ok set_update_subset_insert [of its n x] by auto
  have del: "\<forall>i \<in> set (splice1 n its). itemTotal i = price i * quantity i"
    using ok set_splice1 [of n its] by auto
  show ?thesis
  proof (cases "action = ''add'' \<and> 0 < q")
    case True
    let ?x = "(its ! n)\<lparr>quantity := quantity (its ! n) + q,
                         itemTotal := itemTotal (its ! n) + price_or_zero pr * \<bar>q\<bar>\<rparr>"
    have "itemTotal ?x = price ?x * quantity ?x"
      using True old pr by (simp add: distrib_left)
    from upd [OF this] have "\<forall>i \<in> set (its[n := ?x]). itemTotal i = price i * quantity i" .
    moreover have "merge_item pr q sz action its = its[n := ?x]"
      using True Some by (simp add: merge_item_def Let_def)
    ultimately show ?thesis by simp
  next
    case False
    show ?thesis
    proof (cases "q < 0")
      case True
      let ?y = "(its ! n)\<lparr>quantity := quantity (its ! n) + q,
                           itemTotal := price (its ! n) * (quantity (its ! n) + q)\<rparr>"
      have "itemTotal ?y = price ?y * quantity ?y" by simp
      from upd [OF this] have u: "\<forall>i \<in> set (its[n := ?y]). itemTotal i = price i * quantity i" .
      have "merge_item pr q sz action its =
              (if quantity (its ! n) + q \<le> 0 then splice1 n its else its[n := ?y])"
        using True False Some by (simp add: merge_item_def Let_def)
      with u del show ?thesis by simp
    next
      case neither: False
      with False Some ok show ?thesis by (auto simp: merge_item_def Let_def)
    qed
  qed
qed

text \<open>
  C2 on the code. An order item keeps the price it was created with. The branch of
  \<^verbatim>\<open>createOrUpdateOrder\<close> that merges a positive quantity into an existing item adds the
  new units at the product's current price (\<^verbatim>\<open>itemTotal += itemTotal\<close>, line 858), while
  the branch for a negative quantity recomputes \<^verbatim>\<open>itemTotal = price * quantity\<close> from the
  stored price (lines 861-862). After scenario A (one shirt at 100) and a price change
  to 150, adding one more shirt leaves the item with quantity 2, price 100 and item
  total 250, which is not 100 * 2; the order's total is still the sum of the item
  totals. Removing one shirt again recomputes the item total to 100 * 1.
\<close>

theorem item_total_after_price_change:
  "snd (addToCart day1 7 1 ''M'' ''cash'' state0) = state_A
   \<and> map (\<lambda>ord. map (\<lambda>i. (quantity i, price i, itemTotal i)) (items ord))
        (orders (snd (addtocart day2 7 1 (Some 1) ''M'' ''cash'' state_A_repriced)))
       = [[(2, 100, 250)]]
   \<and> map total (orders (snd (addtocart day2 7 1 (Some 1) ''M'' ''cash'' state_A_repriced)))
       = [250]
   \<and> map (\<lambda>ord. map (\<lambda>i. (quantity i, price i, itemTotal i)) (items ord))
        (orders (snd (addtocart day2 7 1 (Some (- 1)) ''M'' ''cash''
                        (snd (addtocart day2 7 1 (Some 1) ''M'' ''cash'' state_A_repriced)))))
       = [[(1, 100, 100)]]"
  by (simp add: addToCart_def server_reply_def addtocart_def createOrUpdateOrder_def
        insert_order_def save_order_def state_A_repriced_def P1_repriced_def
        state0_def state_A_def order_A_def P1_def P2_def alice_def alice_info_def
        item_shirts_def new_order_def order_valid_def payment_methods_def
        or_else_def default_sizes_def add_cart_line_def delete_key_def find_pending_def
        price_or_zero_def merge_item_def items_total_def cancel_if_empty_def
        updateRevenue_def bucket_def zero_revenue_def checkedout_total_def Let_def)

end
